theory Spec2Isabelle
  imports Complex_Main "HOL-Library.Sublist" "HOL-Library.AList"
begin

section \<open>Data model\<close>

text \<open>
  The program reads four JSON datasets. Each JSON object is a record; a JSON \<open>null\<close> clock
  value is \<open>None\<close>. Strings are ASCII strings. Field names are those of the JSON keys, with
  a prefix where two kinds of object share a key (Isabelle field names are global).
  Python floats (\<open>max_temp\<close>, hours) are modelled by exact rationals: rounding, infinities
  and NaN are outside the model.
\<close>

datatype py_error = ValueError | TypeError | ZeroDivisionError

record 'id attendance =
  employee_record_id :: 'id
  date :: string
  clock_in :: "string option"
  clock_out :: "string option"

record weather =
  weather_country :: string
  weather_date :: string
  condition :: string
  max_temp :: rat

text \<open>
  An entry of the events dataset and a candidate built by \<open>check_dates_against_events\<close> are
  dictionaries with the same three keys, so one record serves both.
\<close>

record event =
  country :: string
  event_name :: string
  event_date :: string

record 'id employee =
  record_id :: 'id
  name :: string
  work_id_number :: string
  email_address :: string
  employee_country :: string
  phone_number :: string

text \<open>The report dictionary: the employee's six fields and two more.\<close>

record 'id wayward = "'id employee" +
  average_hours_per_week :: rat
  events :: "event list"

section \<open>The library functions the program calls\<close>

subsection \<open>\<open>str.split\<close> and \<open>int\<close>\<close>

definition is_digit :: "char \<Rightarrow> bool" where
  "is_digit c = (c \<in> set ''0123456789'')"

definition digit_val :: "char \<Rightarrow> nat" where
  "digit_val c = length (takeWhile (\<lambda>d. d \<noteq> c) ''0123456789'')"

definition decimal :: "string \<Rightarrow> nat" where
  "decimal s = foldl (\<lambda>n c. 10 * n + digit_val c) 0 s"

text \<open>\<open>s.split(sep)\<close> for a one-character separator: never empty, \<open>''.split('-') = ['']\<close>.\<close>

fun split_on :: "char \<Rightarrow> string \<Rightarrow> string list" where
  "split_on sep [] = [[]]"
| "split_on sep (c # cs) =
     (if c = sep then [] # split_on sep cs
      else (case split_on sep cs of
              [] \<Rightarrow> [[c]]
            | f # fs \<Rightarrow> (c # f) # fs))"

text \<open>
  Characters are code points below 256. The white space that \<open>int\<close> skips around the
  digits: blank, tab, line feed, vertical tab, form feed, carriage return, and of the
  code points above 127 the next-line control (133) and the no-break space (160). The
  separators 28 to 31 are white space for \<open>str.strip\<close> but not for \<open>int\<close>, which raises
  \<open>ValueError\<close> on them.
\<close>

definition is_space :: "char \<Rightarrow> bool" where
  "is_space c =
     (c = CHR '' '' \<or> (9 \<le> (of_char c :: nat) \<and> (of_char c :: nat) \<le> 13)
      \<or> (of_char c :: nat) = 133 \<or> (of_char c :: nat) = 160)"

definition strip :: "string \<Rightarrow> string" where
  "strip s = rev (dropWhile is_space (rev (dropWhile is_space s)))"

text \<open>
  \<open>int(s)\<close> in base ten: surrounding white space is dropped, one sign is allowed, and the
  digits may be grouped by single underscores. Anything else raises \<open>ValueError\<close>, and so
  does a string of more than 4300 digits (the default limit of \<open>sys.set_int_max_str_digits\<close>).
\<close>

definition max_str_digits :: nat where
  "max_str_digits = 4300"

definition digit_groups :: "string \<Rightarrow> bool" where
  "digit_groups s = list_all (\<lambda>g. g \<noteq> [] \<and> list_all is_digit g) (split_on CHR ''_'' s)"

definition py_int :: "string \<Rightarrow> py_error + int" where
  "py_int s =
     (let t = strip s;
          neg = (t \<noteq> [] \<and> hd t = CHR ''-'');
          body = (if t \<noteq> [] \<and> (hd t = CHR ''-'' \<or> hd t = CHR ''+'') then tl t else t)
      in if digit_groups body \<and> length (filter is_digit body) \<le> max_str_digits
         then Inr ((if neg then - 1 else 1) * int (decimal (filter is_digit body)))
         else Inl ValueError)"

subsection \<open>\<open>datetime.strptime\<close>, times of day and dates\<close>

datatype py_time = Time (hour: nat) (minute: nat) (second: nat)

datatype py_date = Date (year: nat) (month: nat) (day: nat)

text \<open>A field of one or two digits whose value lies between \<open>lo\<close> and \<open>hi\<close>.\<close>

definition num_field :: "nat \<Rightarrow> nat \<Rightarrow> string \<Rightarrow> nat option" where
  "num_field lo hi s =
     (if (length s = 1 \<or> length s = 2) \<and> list_all is_digit s
         \<and> lo \<le> decimal s \<and> decimal s \<le> hi
      then Some (decimal s) else None)"

text \<open>
  \<open>datetime.strptime(s, "%H:%M:%S")\<close>: three fields separated by colons, hour 0..23,
  minute 0..59, second 0..59 (the pattern admits 60 and 61, which the \<open>datetime\<close>
  constructor then rejects). The argument must be a string: \<open>None\<close> raises \<open>TypeError\<close>.
\<close>

definition strptime_HMS :: "string option \<Rightarrow> py_error + py_time" where
  "strptime_HMS v =
     (case v of
        None \<Rightarrow> Inl TypeError
      | Some s \<Rightarrow>
         (case split_on CHR '':'' s of
            [h, m, x] \<Rightarrow>
              (case (num_field 0 23 h, num_field 0 59 m, num_field 0 59 x) of
                 (Some hh, Some mm, Some ss) \<Rightarrow> Inr (Time hh mm ss)
               | _ \<Rightarrow> Inl ValueError)
          | _ \<Rightarrow> Inl ValueError))"

text \<open>Comparison of \<open>datetime.time\<close> values: lexicographic on hour, minute, second.\<close>

definition time_less :: "py_time \<Rightarrow> py_time \<Rightarrow> bool" where
  "time_less a b =
     (hour a < hour b \<or> (hour a = hour b \<and>
       (minute a < minute b \<or> (minute a = minute b \<and> second a < second b))))"

definition seconds_of :: "py_time \<Rightarrow> int" where
  "seconds_of t = int (hour t) * 3600 + int (minute t) * 60 + int (second t)"

text \<open>The calendar arithmetic of \<open>datetime.date\<close> (proleptic Gregorian ordinals).\<close>

definition is_leap :: "nat \<Rightarrow> bool" where
  "is_leap y = (y mod 4 = 0 \<and> (y mod 100 \<noteq> 0 \<or> y mod 400 = 0))"

definition days_in_month :: "nat \<Rightarrow> nat \<Rightarrow> nat" where
  "days_in_month y m =
     (if m = 2 \<and> is_leap y then 29
      else [0, 31, 28, 31, 30, 31, 30, 31, 31, 30, 31, 30, 31] ! m)"

definition days_before_month :: "nat \<Rightarrow> nat \<Rightarrow> nat" where
  "days_before_month y m =
     [0, 0, 31, 59, 90, 120, 151, 181, 212, 243, 273, 304, 334] ! m
       + (if m > 2 \<and> is_leap y then 1 else 0)"

definition days_before_year :: "nat \<Rightarrow> int" where
  "days_before_year y =
     (let z = int y - 1 in z * 365 + z div 4 - z div 100 + z div 400)"

definition ymd2ord :: "nat \<Rightarrow> nat \<Rightarrow> nat \<Rightarrow> int" where
  "ymd2ord y m d = days_before_year y + int (days_before_month y m) + int d"

definition toordinal :: "py_date \<Rightarrow> int" where
  "toordinal d = ymd2ord (year d) (month d) (day d)"

definition valid_date :: "nat \<Rightarrow> nat \<Rightarrow> nat \<Rightarrow> bool" where
  "valid_date y m d =
     (1 \<le> y \<and> y \<le> 9999 \<and> 1 \<le> m \<and> m \<le> 12 \<and> 1 \<le> d \<and> d \<le> days_in_month y m)"

text \<open>
  \<open>datetime.strptime(s, "%Y-%m-%d")\<close>: a year of exactly four digits, a month 1..12 and a
  day 1..31 of one or two digits (the day may also be a space and one digit), and the
  three must name a day of the calendar.
\<close>

definition year_field :: "string \<Rightarrow> nat option" where
  "year_field s = (if length s = 4 \<and> list_all is_digit s then Some (decimal s) else None)"

definition day_field :: "string \<Rightarrow> nat option" where
  "day_field s =
     (case s of
        [a, b] \<Rightarrow> (if a = CHR '' '' \<and> is_digit b \<and> b \<noteq> CHR ''0'' then Some (digit_val b)
                   else num_field 1 31 s)
      | _ \<Rightarrow> num_field 1 31 s)"

definition strptime_Ymd :: "string \<Rightarrow> py_error + py_date" where
  "strptime_Ymd s =
     (case split_on CHR ''-'' s of
        [y, m, d] \<Rightarrow>
          (case (year_field y, num_field 1 12 m, day_field d) of
             (Some yy, Some mm, Some dd) \<Rightarrow>
               (if valid_date yy mm dd then Inr (Date yy mm dd) else Inl ValueError)
           | _ \<Rightarrow> Inl ValueError)
      | _ \<Rightarrow> Inl ValueError)"

text \<open>
  \<open>date.isocalendar().week\<close>: the ISO 8601 week number, computed as \<open>datetime\<close> does, from
  the Monday of the first ISO week of the year.
\<close>

definition isoweek1monday :: "nat \<Rightarrow> int" where
  "isoweek1monday y =
     (let firstday = ymd2ord y 1 1;
          firstweekday = (firstday + 6) mod 7;
          week1monday = firstday - firstweekday
      in if firstweekday > 3 then week1monday + 7 else week1monday)"

definition isocalendar_week :: "py_date \<Rightarrow> int" where
  "isocalendar_week d =
     (let today = toordinal d;
          week = (today - isoweek1monday (year d)) div 7
      in if week < 0 then (today - isoweek1monday (year d - 1)) div 7 + 1
         else if week \<ge> 52 \<and> today \<ge> isoweek1monday (year d + 1) then 1
         else week + 1)"

section \<open>The program\<close>

subsection \<open>\<open>check_if_date_is_in_year\<close>\<close>

definition check_if_date_is_in_year :: "string \<Rightarrow> int \<Rightarrow> py_error + bool" where
  "check_if_date_is_in_year date_val yr =
     (case split_on CHR ''-'' date_val of
        [] \<Rightarrow> Inl ValueError
      | f # _ \<Rightarrow> (case py_int f of Inl e \<Rightarrow> Inl e | Inr date_year \<Rightarrow> Inr (date_year = yr)))"

subsection \<open>\<open>remove_duplicate_events\<close>\<close>

text \<open>
  The loop, with its two variables: the set \<open>unique_dates\<close> of the dates seen and the list
  \<open>unique_events\<close> built so far.
\<close>

fun remove_duplicate_events_loop :: "event list \<Rightarrow> string set \<Rightarrow> event list \<Rightarrow> event list" where
  "remove_duplicate_events_loop [] unique_dates unique_events = unique_events"
| "remove_duplicate_events_loop (ev # rest) unique_dates unique_events =
     (if event_date ev \<notin> unique_dates
      then remove_duplicate_events_loop rest (insert (event_date ev) unique_dates)
             (unique_events @ [ev])
      else remove_duplicate_events_loop rest unique_dates unique_events)"

definition remove_duplicate_events :: "event list \<Rightarrow> event list" where
  "remove_duplicate_events event_data = remove_duplicate_events_loop event_data {} []"

subsection \<open>\<open>calculate_total_hours\<close> and \<open>calculate_average_hours_per_week\<close>\<close>

text \<open>
  Both strings are parsed onto the same day, so the difference of the two \<open>datetime\<close>
  values is the difference of the seconds since midnight.
\<close>

definition calculate_total_hours :: "string \<Rightarrow> string \<Rightarrow> py_error + rat" where
  "calculate_total_hours start_time stop_time =
     (case strptime_HMS (Some start_time) of
        Inl e \<Rightarrow> Inl e
      | Inr start \<Rightarrow>
         (case strptime_HMS (Some stop_time) of
            Inl e \<Rightarrow> Inl e
          | Inr stop \<Rightarrow> Inr (of_int (seconds_of stop - seconds_of start) / 3600)))"

text \<open>
  The body of the loop computes two things for a row: its hours (0 unless both clock values
  are present) and the ISO week number of its date.
\<close>

definition row_hours :: "'id attendance \<Rightarrow> py_error + rat" where
  "row_hours a =
     (case (clock_in a, clock_out a) of
        (Some start_time, Some stop_time) \<Rightarrow> calculate_total_hours start_time stop_time
      | _ \<Rightarrow> Inr 0)"

definition row_week :: "'id attendance \<Rightarrow> py_error + int" where
  "row_week a =
     (case strptime_Ymd (date a) of
        Inl e \<Rightarrow> Inl e
      | Inr d \<Rightarrow> Inr (isocalendar_week d))"

text \<open>
  The dictionary \<open>total_hours_per_week\<close> is an association list in insertion order, as a
  Python \<open>dict\<close> is. A week seen for the first time is entered with 0 before the hours of
  the row are added.
\<close>

fun total_hours_per_week_loop ::
  "'id attendance list \<Rightarrow> (int \<times> rat) list \<Rightarrow> py_error + (int \<times> rat) list" where
  "total_hours_per_week_loop [] total_hours_per_week = Inr total_hours_per_week"
| "total_hours_per_week_loop (a # rest) total_hours_per_week =
     (case row_hours a of
        Inl e \<Rightarrow> Inl e
      | Inr total_hours \<Rightarrow>
         (case row_week a of
            Inl e \<Rightarrow> Inl e
          | Inr week_key \<Rightarrow>
              total_hours_per_week_loop rest
                (case map_of total_hours_per_week week_key of
                   None \<Rightarrow> AList.update week_key (0 + total_hours) total_hours_per_week
                 | Some h \<Rightarrow> AList.update week_key (h + total_hours) total_hours_per_week)))"

definition calculate_average_hours_per_week :: "'id attendance list \<Rightarrow> py_error + rat" where
  "calculate_average_hours_per_week attendance_data =
     (case total_hours_per_week_loop attendance_data [] of
        Inl e \<Rightarrow> Inl e
      | Inr total_hours_per_week \<Rightarrow>
         (if length total_hours_per_week = 0 then Inl ZeroDivisionError
          else Inr (sum_list (map snd total_hours_per_week)
                      / of_nat (length total_hours_per_week))))"

subsection \<open>\<open>get_employee_attendance_data\<close>\<close>

fun get_employee_attendance_data_loop ::
  "'id \<Rightarrow> 'id attendance list \<Rightarrow> int \<Rightarrow> 'id attendance list \<Rightarrow> py_error + 'id attendance list" where
  "get_employee_attendance_data_loop rid [] yr employee_data = Inr employee_data"
| "get_employee_attendance_data_loop rid (emp # rest) yr employee_data =
     (if employee_record_id emp = rid
      then (case check_if_date_is_in_year (date emp) yr of
              Inl e \<Rightarrow> Inl e
            | Inr in_year \<Rightarrow>
                (if in_year
                 then get_employee_attendance_data_loop rid rest yr (employee_data @ [emp])
                 else get_employee_attendance_data_loop rid rest yr employee_data))
      else get_employee_attendance_data_loop rid rest yr employee_data)"

definition get_employee_attendance_data ::
  "'id \<Rightarrow> 'id attendance list \<Rightarrow> int \<Rightarrow> py_error + 'id attendance list" where
  "get_employee_attendance_data rid employee_attendance_data yr =
     get_employee_attendance_data_loop rid employee_attendance_data yr []"

subsection \<open>\<open>check_employee_times\<close>\<close>

definition start_time :: py_time where
  "start_time = Time 8 15 0"

definition end_time :: py_time where
  "end_time = Time 16 0 0"

fun check_employee_times_loop ::
  "'id attendance list \<Rightarrow> string list \<Rightarrow> py_error + string list" where
  "check_employee_times_loop [] delinquent_data = Inr delinquent_data"
| "check_employee_times_loop (a # rest) delinquent_data =
     (if clock_in a = None \<and> clock_out a = None
      then check_employee_times_loop rest (delinquent_data @ [date a])
      else (case strptime_HMS (clock_in a) of
              Inl e \<Rightarrow> Inl e
            | Inr ci \<Rightarrow>
               (case strptime_HMS (clock_out a) of
                  Inl e \<Rightarrow> Inl e
                | Inr co \<Rightarrow>
                   (if time_less start_time ci \<or> time_less co end_time
                    then check_employee_times_loop rest (delinquent_data @ [date a])
                    else check_employee_times_loop rest delinquent_data))))"

definition check_employee_times :: "'id attendance list \<Rightarrow> py_error + string list" where
  "check_employee_times employee_attendance_data =
     check_employee_times_loop employee_attendance_data []"

subsection \<open>\<open>check_dates_against_events\<close>\<close>

text \<open>
  The two set comprehensions. A row is looked at in the order the conjunction is written:
  the country first, then the year of the date (which may raise), then the rest.
\<close>

fun weather_set :: "weather list \<Rightarrow> string \<Rightarrow> py_error + string set" where
  "weather_set [] c = Inr {}"
| "weather_set (w # rest) c =
     (if weather_country w = c
      then (case check_if_date_is_in_year (weather_date w) 2023 of
              Inl e \<Rightarrow> Inl e
            | Inr in_year \<Rightarrow>
               (case weather_set rest c of
                  Inl e \<Rightarrow> Inl e
                | Inr ws \<Rightarrow>
                   (if in_year \<and> (condition w \<in> set [''hail'', ''thunderstorm'', ''blizzard'', ''hurricane'']
                                   \<or> max_temp w > 40)
                    then Inr (insert (weather_date w) ws) else Inr ws)))
      else weather_set rest c)"

fun event_set :: "event list \<Rightarrow> string \<Rightarrow> py_error + (string \<times> string) set" where
  "event_set [] c = Inr {}"
| "event_set (ev # rest) c =
     (if country ev = c
      then (case check_if_date_is_in_year (event_date ev) 2023 of
              Inl e \<Rightarrow> Inl e
            | Inr in_year \<Rightarrow>
               (case event_set rest c of
                  Inl e \<Rightarrow> Inl e
                | Inr es \<Rightarrow>
                   (if in_year then Inr (insert (event_date ev, event_name ev) es) else Inr es)))
      else event_set rest c)"

text \<open>
  The test of the inner loop, on the parsed delinquent date and the event's date string:
  the difference of the two dates is one of \<open>timedelta(days=-1)\<close>, \<open>timedelta(days=0)\<close>,
  \<open>timedelta(days=1)\<close>. Differences of dates are differences of ordinals.
\<close>

definition near_date :: "py_date \<Rightarrow> string \<Rightarrow> bool" where
  "near_date no_excuse_date_obj ev_date =
     (case strptime_Ymd ev_date of
        Inl e \<Rightarrow> False
      | Inr event_date_obj \<Rightarrow>
          toordinal event_date_obj - toordinal no_excuse_date_obj \<in> set [- 1, 0, 1])"

text \<open>The dictionary \<open>event_reason\<close> built for a pair \<open>(event_date, event_name)\<close> of \<open>event_set\<close>.\<close>

definition event_reason :: "string \<Rightarrow> string \<times> string \<Rightarrow> event" where
  "event_reason c p = \<lparr>country = c, event_name = snd p, event_date = fst p\<rparr>"

text \<open>The inner loop: the events of \<open>event_set\<close>, in the order it is iterated, against one date.\<close>

fun events_near_date ::
  "string \<Rightarrow> py_date \<Rightarrow> (string \<times> string) list \<Rightarrow> event list \<Rightarrow> py_error + event list" where
  "events_near_date c no_excuse_date_obj [] event_reason_list = Inr event_reason_list"
| "events_near_date c no_excuse_date_obj (p # rest) event_reason_list =
     (case strptime_Ymd (fst p) of
        Inl e \<Rightarrow> Inl e
      | Inr event_date_obj \<Rightarrow>
         (if near_date no_excuse_date_obj (fst p)
          then events_near_date c no_excuse_date_obj rest
                 (event_reason_list @ [event_reason c p])
          else events_near_date c no_excuse_date_obj rest event_reason_list))"

text \<open>The outer loop over \<open>no_weather_excuse_list\<close>.\<close>

fun event_reasons ::
  "string \<Rightarrow> string list \<Rightarrow> (string \<times> string) list \<Rightarrow> event list \<Rightarrow> py_error + event list" where
  "event_reasons c [] evs event_reason_list = Inr event_reason_list"
| "event_reasons c (no_excuse_date # rest) evs event_reason_list =
     (case strptime_Ymd no_excuse_date of
        Inl e \<Rightarrow> Inl e
      | Inr no_excuse_date_obj \<Rightarrow>
         (case events_near_date c no_excuse_date_obj evs event_reason_list of
            Inl e \<Rightarrow> Inl e
          | Inr event_reason_list' \<Rightarrow> event_reasons c rest evs event_reason_list'))"

text \<open>
  Python does not fix the order in which a set is iterated: it depends on the elements and
  on how the set was built. The order in which \<open>list(no_weather_excuse)\<close> lists the dates
  and the order in which the loop walks \<open>event_set\<close> are therefore parameters, \<open>date_order\<close>
  and \<open>event_order\<close>. Each is given everything its set is built from (the weather data, the
  delinquent dates and the country; the events data and the country) and the set itself. A
  run of the program is an instance where each lists the elements of its set once
  (\<open>lists_set\<close>).
\<close>

type_synonym date_iteration = "weather list \<times> string list \<times> string \<Rightarrow> string set \<Rightarrow> string list"

type_synonym event_iteration =
  "event list \<times> string \<Rightarrow> (string \<times> string) set \<Rightarrow> (string \<times> string) list"

definition lists_set :: "('a set \<Rightarrow> 'a list) \<Rightarrow> 'a set \<Rightarrow> bool" where
  "lists_set order S = (set (order S) = S \<and> distinct (order S))"

definition check_dates_against_events ::
  "date_iteration \<Rightarrow> event_iteration \<Rightarrow>
   weather list \<Rightarrow> event list \<Rightarrow> string list \<Rightarrow> string \<Rightarrow> py_error + event list" where
  "check_dates_against_events date_order event_order weather_data events_data
       poor_employee_attendance_data c =
     (case weather_set weather_data c of
        Inl e \<Rightarrow> Inl e
      | Inr ws \<Rightarrow>
         (case event_set events_data c of
            Inl e \<Rightarrow> Inl e
          | Inr es \<Rightarrow>
             (let no_weather_excuse = set poor_employee_attendance_data - ws;
                  no_weather_excuse_list =
                    date_order (weather_data, poor_employee_attendance_data, c) no_weather_excuse
              in case event_reasons c no_weather_excuse_list
                        (event_order (events_data, c) es) [] of
                   Inl e \<Rightarrow> Inl e
                 | Inr event_reason_list \<Rightarrow> Inr (remove_duplicate_events event_reason_list))))"

subsection \<open>\<open>identify_delinquent_employees\<close>\<close>

text \<open>
  The loop over the roster, from the point where the four datasets are loaded. For each
  employee the body first runs the four steps below, in this order, and then decides
  whether to report. An exception in any step ends the run.
\<close>

definition analyse_employee ::
  "date_iteration \<Rightarrow> event_iteration \<Rightarrow>
   weather list \<Rightarrow> event list \<Rightarrow> 'id attendance list \<Rightarrow> 'id employee \<Rightarrow>
   py_error + (rat \<times> event list)" where
  "analyse_employee date_order event_order weather_data events_data attendance_data emp =
     (case get_employee_attendance_data (record_id emp) attendance_data 2023 of
        Inl e \<Rightarrow> Inl e
      | Inr employee_attendance_data \<Rightarrow>
     (case check_employee_times employee_attendance_data of
        Inl e \<Rightarrow> Inl e
      | Inr poor_employee_attendance_data \<Rightarrow>
     (case check_dates_against_events date_order event_order weather_data events_data
             poor_employee_attendance_data (employee_country emp) of
        Inl e \<Rightarrow> Inl e
      | Inr events_cross_reference \<Rightarrow>
     (case calculate_average_hours_per_week employee_attendance_data of
        Inl e \<Rightarrow> Inl e
      | Inr average_hours_worked_per_week \<Rightarrow>
          Inr (average_hours_worked_per_week, events_cross_reference)))))"

definition employee_information :: "'id employee \<Rightarrow> rat \<Rightarrow> event list \<Rightarrow> 'id wayward" where
  "employee_information emp average_hours_worked_per_week events_cross_reference =
     \<lparr>record_id = record_id emp, name = name emp,
      work_id_number = work_id_number emp, email_address = email_address emp,
      employee_country = employee_country emp, phone_number = phone_number emp,
      average_hours_per_week = average_hours_worked_per_week,
      events = events_cross_reference\<rparr>"

fun identify_delinquent_employees_loop ::
  "date_iteration \<Rightarrow> event_iteration \<Rightarrow>
   weather list \<Rightarrow> event list \<Rightarrow> 'id attendance list \<Rightarrow> 'id employee list \<Rightarrow>
   'id wayward list \<Rightarrow> py_error + 'id wayward list" where
  "identify_delinquent_employees_loop date_order event_order weather_data events_data
       attendance_data [] wayward_employees = Inr wayward_employees"
| "identify_delinquent_employees_loop date_order event_order weather_data events_data
       attendance_data (emp # rest) wayward_employees =
     (case analyse_employee date_order event_order weather_data events_data attendance_data emp of
        Inl e \<Rightarrow> Inl e
      | Inr (average_hours_worked_per_week, events_cross_reference) \<Rightarrow>
         (if length events_cross_reference > 3
          then identify_delinquent_employees_loop date_order event_order weather_data
                 events_data attendance_data rest
                 (wayward_employees @
                   [employee_information emp average_hours_worked_per_week
                      events_cross_reference])
          else identify_delinquent_employees_loop date_order event_order weather_data
                 events_data attendance_data rest wayward_employees))"

definition identify_delinquent_employees ::
  "date_iteration \<Rightarrow> event_iteration \<Rightarrow>
   weather list \<Rightarrow> event list \<Rightarrow> 'id employee list \<Rightarrow> 'id attendance list \<Rightarrow>
   py_error + 'id wayward list" where
  "identify_delinquent_employees date_order event_order weather_data events_data
       employee_data attendance_data =
     identify_delinquent_employees_loop date_order event_order weather_data events_data
       attendance_data employee_data []"

section \<open>An example run\<close>

text \<open>
  The data of the examples below: three weather rows, six events, the attendance rows of the
  employees 7 and 8, and one possible pair of iteration orders.
\<close>

abbreviation sc_weather :: "weather list" where
  "sc_weather \<equiv>
     [\<lparr>weather_country = ''US'', weather_date = ''2023-03-13'', condition = ''hurricane'', max_temp = 30\<rparr>,
      \<lparr>weather_country = ''CA'', weather_date = ''2023-03-06'', condition = ''hail'', max_temp = 10\<rparr>,
      \<lparr>weather_country = ''US'', weather_date = ''2023-03-08'', condition = ''sunny'', max_temp = 40\<rparr>]"

abbreviation sc_events :: "event list" where
  "sc_events \<equiv>
     [\<lparr>country = ''US'', event_name = ''Fair'', event_date = ''2023-03-06''\<rparr>,
      \<lparr>country = ''US'', event_name = ''Derby'', event_date = ''2023-03-08''\<rparr>,
      \<lparr>country = ''US'', event_name = ''Gala'', event_date = ''2023-03-10''\<rparr>,
      \<lparr>country = ''US'', event_name = ''Parade'', event_date = ''2023-03-13''\<rparr>,
      \<lparr>country = ''US'', event_name = ''Expo'', event_date = ''2023-03-16''\<rparr>,
      \<lparr>country = ''CA'', event_name = ''Fest'', event_date = ''2023-03-15''\<rparr>]"

abbreviation sc_attendance :: "nat attendance list" where
  "sc_attendance \<equiv>
     [\<lparr>employee_record_id = 7, date = ''2023-03-06'', clock_in = None, clock_out = None\<rparr>,
      \<lparr>employee_record_id = 8, date = ''2023-03-06'', clock_in = None, clock_out = None\<rparr>,
      \<lparr>employee_record_id = 7, date = ''2023-03-08'', clock_in = None, clock_out = None\<rparr>,
      \<lparr>employee_record_id = 8, date = ''2023-03-08'', clock_in = None, clock_out = None\<rparr>,
      \<lparr>employee_record_id = 7, date = ''2023-03-10'', clock_in = None, clock_out = None\<rparr>,
      \<lparr>employee_record_id = 8, date = ''2023-03-10'', clock_in = None, clock_out = None\<rparr>,
      \<lparr>employee_record_id = 7, date = ''2023-03-13'', clock_in = None, clock_out = None\<rparr>,
      \<lparr>employee_record_id = 8, date = ''2023-03-14'', clock_in = Some ''08:15:00'', clock_out = Some ''16:00:00''\<rparr>,
      \<lparr>employee_record_id = 7, date = ''2023-03-15'', clock_in = Some ''09:00:00'', clock_out = Some ''16:30:00''\<rparr>,
      \<lparr>employee_record_id = 7, date = ''2023-03-17'', clock_in = Some ''08:00:00'', clock_out = Some ''16:00:00''\<rparr>]"

abbreviation sc_A :: "nat employee" where
  "sc_A \<equiv> \<lparr>record_id = 7, name = ''Ada'', work_id_number = ''W7'', email_address = ''ada@x.org'',
            employee_country = ''US'', phone_number = ''555-0107''\<rparr>"

abbreviation sc_B :: "nat employee" where
  "sc_B \<equiv> \<lparr>record_id = 8, name = ''Bob'', work_id_number = ''W8'', email_address = ''bob@x.org'',
            employee_country = ''US'', phone_number = ''555-0108''\<rparr>"

abbreviation sc_date_order :: date_iteration where
  "sc_date_order \<equiv> (\<lambda>built S. filter (\<lambda>d. d \<in> S)
     [''2023-03-06'', ''2023-03-08'', ''2023-03-10'', ''2023-03-13'', ''2023-03-15''])"

abbreviation sc_event_order :: event_iteration where
  "sc_event_order \<equiv> (\<lambda>built S. filter (\<lambda>p. p \<in> S)
     [(''2023-03-06'', ''Fair''), (''2023-03-08'', ''Derby''), (''2023-03-10'', ''Gala''),
      (''2023-03-13'', ''Parade''), (''2023-03-16'', ''Expo'')])"

abbreviation sc_C :: "nat employee" where
  "sc_C \<equiv> \<lparr>record_id = 9, name = ''Cy'', work_id_number = ''W9'', email_address = ''cy@x.org'',
            employee_country = ''CA'', phone_number = ''555-0109''\<rparr>"

section \<open>Properties\<close>

subsection \<open>Deduplication by event date\<close>

lemma remove_duplicate_events_loop_acc:
  "remove_duplicate_events_loop xs seen acc = acc @ remove_duplicate_events_loop xs seen []"
proof (induction xs arbitrary: seen acc)
  case Nil
  show ?case by simp
next
  case (Cons x xs)
  show ?case
    using Cons.IH [of "insert (event_date x) seen" "acc @ [x]"]
          Cons.IH [of "insert (event_date x) seen" "[x]"]
          Cons.IH [of seen acc]
    by simp
qed

lemma remove_duplicate_events_loop_Cons:
  "remove_duplicate_events_loop (x # xs) seen [] =
     (if event_date x \<notin> seen
      then x # remove_duplicate_events_loop xs (insert (event_date x) seen) []
      else remove_duplicate_events_loop xs seen [])"
  using remove_duplicate_events_loop_acc [of xs "insert (event_date x) seen" "[x]"] by simp

lemma remove_duplicate_events_loop_subseq:
  "subseq (remove_duplicate_events_loop xs seen []) xs"
proof (induction xs arbitrary: seen)
  case Nil
  show ?case by simp
next
  case (Cons x xs)
  show ?case
    unfolding remove_duplicate_events_loop_Cons
    using Cons.IH by (auto intro: list_emb_Cons)
qed

lemma remove_duplicate_events_loop_unseen:
  "e \<in> set (remove_duplicate_events_loop xs seen []) \<Longrightarrow> event_date e \<notin> seen"
proof (induction xs arbitrary: seen)
  case Nil
  then show ?case by simp
next
  case (Cons x xs)
  then show ?case
    unfolding remove_duplicate_events_loop_Cons
    by (auto split: if_splits)
qed

lemma remove_duplicate_events_loop_distinct:
  "distinct (map event_date (remove_duplicate_events_loop xs seen []))"
proof (induction xs arbitrary: seen)
  case Nil
  show ?case by simp
next
  case (Cons x xs)
  show ?case
    unfolding remove_duplicate_events_loop_Cons
    using Cons.IH by (auto dest: remove_duplicate_events_loop_unseen)
qed

lemma remove_duplicate_events_loop_find:
  "find (\<lambda>e. event_date e = d) (remove_duplicate_events_loop xs seen []) =
     (if d \<in> seen then None else find (\<lambda>e. event_date e = d) xs)"
proof (induction xs arbitrary: seen)
  case Nil
  show ?case by simp
next
  case (Cons x xs)
  show ?case
    unfolding remove_duplicate_events_loop_Cons
    using Cons.IH by auto
qed

text \<open>
  Claim C4. \<open>remove_duplicate_events\<close> looks at the \<open>event_date\<close> only. Its result is a
  subsequence of the input, no two of its entries share an \<open>event_date\<close>, and for every
  date \<open>d\<close> the first entry of the result with that date is the first entry of the input
  with that date (or neither has one): the first candidate of each date is kept and all
  later ones of that date are dropped, whatever their \<open>event_name\<close>.
\<close>

theorem remove_duplicate_events_keeps_first_of_each_date:
  "subseq (remove_duplicate_events event_data) event_data
   \<and> distinct (map event_date (remove_duplicate_events event_data))
   \<and> find (\<lambda>e. event_date e = d) (remove_duplicate_events event_data)
       = find (\<lambda>e. event_date e = d) event_data"
  unfolding remove_duplicate_events_def
  by (simp add: remove_duplicate_events_loop_subseq remove_duplicate_events_loop_distinct
        remove_duplicate_events_loop_find)

theorem remove_duplicate_events_keeps_first_of_each_date_witness:
  "remove_duplicate_events
     [\<lparr>country = ''US'', event_name = ''Fair'', event_date = ''2023-03-01''\<rparr>,
      \<lparr>country = ''US'', event_name = ''Derby'', event_date = ''2023-03-01''\<rparr>,
      \<lparr>country = ''US'', event_name = ''Gala'', event_date = ''2023-03-02''\<rparr>,
      \<lparr>country = ''US'', event_name = ''Fair'', event_date = ''2023-03-01''\<rparr>]
   = [\<lparr>country = ''US'', event_name = ''Fair'', event_date = ''2023-03-01''\<rparr>,
      \<lparr>country = ''US'', event_name = ''Gala'', event_date = ''2023-03-02''\<rparr>]
   \<and> find (\<lambda>e. event_date e = ''2023-03-01'')
       (remove_duplicate_events
         [\<lparr>country = ''US'', event_name = ''Fair'', event_date = ''2023-03-01''\<rparr>,
          \<lparr>country = ''US'', event_name = ''Derby'', event_date = ''2023-03-01''\<rparr>,
          \<lparr>country = ''US'', event_name = ''Gala'', event_date = ''2023-03-02''\<rparr>,
          \<lparr>country = ''US'', event_name = ''Fair'', event_date = ''2023-03-01''\<rparr>])
     = Some \<lparr>country = ''US'', event_name = ''Fair'', event_date = ''2023-03-01''\<rparr>"
proof -
  have "remove_duplicate_events
     [\<lparr>country = ''US'', event_name = ''Fair'', event_date = ''2023-03-01''\<rparr>,
      \<lparr>country = ''US'', event_name = ''Derby'', event_date = ''2023-03-01''\<rparr>,
      \<lparr>country = ''US'', event_name = ''Gala'', event_date = ''2023-03-02''\<rparr>,
      \<lparr>country = ''US'', event_name = ''Fair'', event_date = ''2023-03-01''\<rparr>]
   = [\<lparr>country = ''US'', event_name = ''Fair'', event_date = ''2023-03-01''\<rparr>,
      \<lparr>country = ''US'', event_name = ''Gala'', event_date = ''2023-03-02''\<rparr>]"
    by (simp add: remove_duplicate_events_def)
  then show ?thesis
    using remove_duplicate_events_keeps_first_of_each_date
      [of "[\<lparr>country = ''US'', event_name = ''Fair'', event_date = ''2023-03-01''\<rparr>,
      \<lparr>country = ''US'', event_name = ''Derby'', event_date = ''2023-03-01''\<rparr>,
      \<lparr>country = ''US'', event_name = ''Gala'', event_date = ''2023-03-02''\<rparr>,
      \<lparr>country = ''US'', event_name = ''Fair'', event_date = ''2023-03-01''\<rparr>]" "''2023-03-01''"]
    by simp
qed

lemma in_dates_find:
  "(d \<in> event_date ` set ys) = (find (\<lambda>e. event_date e = d) ys \<noteq> None)"
  by (auto simp: find_None_iff)

lemma remove_duplicate_events_dates:
  "event_date ` set (remove_duplicate_events xs) = event_date ` set xs"
proof (rule set_eqI)
  fix d
  show "(d \<in> event_date ` set (remove_duplicate_events xs)) = (d \<in> event_date ` set xs)"
    unfolding in_dates_find remove_duplicate_events_def
    by (simp add: remove_duplicate_events_loop_find)
qed

lemma remove_duplicate_events_length:
  "length (remove_duplicate_events xs) = card (event_date ` set xs)"
proof -
  have "distinct (map event_date (remove_duplicate_events xs))"
    unfolding remove_duplicate_events_def by (rule remove_duplicate_events_loop_distinct)
  from distinct_card [OF this] show ?thesis
    by (simp add: remove_duplicate_events_dates)
qed

lemma remove_duplicate_events_loop_subset:
  "set (remove_duplicate_events_loop xs seen []) \<subseteq> set xs"
proof (induction xs arbitrary: seen)
  case Nil
  show ?case by simp
next
  case (Cons x xs)
  show ?case
    unfolding remove_duplicate_events_loop_Cons
    using Cons.IH by (auto split: if_splits)
qed

lemma remove_duplicate_events_subset:
  "set (remove_duplicate_events xs) \<subseteq> set xs"
  unfolding remove_duplicate_events_def by (rule remove_duplicate_events_loop_subset)

subsection \<open>Classification of attendance rows\<close>

lemma strptime_HMS_range:
  "strptime_HMS v = Inr t \<Longrightarrow> hour t < 24 \<and> minute t < 60 \<and> second t < 60"
  by (auto simp: strptime_HMS_def num_field_def
           split: option.splits list.splits if_splits)

lemma strptime_HMS_None: "strptime_HMS None = Inl TypeError"
  by (simp add: strptime_HMS_def)

lemma time_less_seconds:
  "minute a < 60 \<Longrightarrow> second a < 60 \<Longrightarrow> minute b < 60 \<Longrightarrow> second b < 60 \<Longrightarrow>
   time_less a b = (seconds_of a < seconds_of b)"
  unfolding time_less_def seconds_of_def by (cases a; cases b) auto

lemma check_employee_times_loop_Inr:
  "(check_employee_times_loop rows acc = Inr ds) =
     ((\<forall>a \<in> set rows. (clock_in a = None \<and> clock_out a = None)
          \<or> (\<exists>ci co. strptime_HMS (clock_in a) = Inr ci \<and> strptime_HMS (clock_out a) = Inr co))
      \<and> ds = acc @ map date (filter (\<lambda>a. (clock_in a = None \<and> clock_out a = None)
          \<or> (\<exists>ci co. strptime_HMS (clock_in a) = Inr ci \<and> strptime_HMS (clock_out a) = Inr co
                \<and> (time_less start_time ci \<or> time_less co end_time))) rows))"
proof (induction rows arbitrary: acc)
  case Nil
  show ?case by auto
next
  case (Cons a rows)
  show ?case
  proof (cases "clock_in a")
    case i: None
    show ?thesis
    proof (cases "clock_out a")
      case None
      with i show ?thesis using Cons.IH [of "acc @ [date a]"] by simp
    next
      case (Some t)
      with i show ?thesis by (simp add: strptime_HMS_None)
    qed
  next
    case i: (Some s)
    show ?thesis
    proof (cases "strptime_HMS (Some s)")
      case (Inl e)
      with i show ?thesis by simp
    next
      case ci: (Inr ci)
      show ?thesis
      proof (cases "strptime_HMS (clock_out a)")
        case (Inl e)
        with i ci show ?thesis by simp
      next
        case co: (Inr co)
        show ?thesis
          using i ci co Cons.IH [of "acc @ [date a]"] Cons.IH [of acc] by simp
      qed
    qed
  qed
qed

text \<open>
  Claim C1. \<open>check_employee_times\<close> returns a list exactly when every row has either no
  clock value at all or two clock values that parse as times of day, and the list is then
  the dates, in row order, of the rows that have no clock value or whose \<open>clock_in\<close> is
  strictly later than 08:15:00 or whose \<open>clock_out\<close> is strictly earlier than 16:00:00.
  A row with both values present, \<open>clock_in\<close> at or before 08:15:00 and \<open>clock_out\<close> at or
  after 16:00:00 contributes nothing.
\<close>

theorem check_employee_times_records_delinquent_rows:
  "(check_employee_times rows = Inr dates) =
     ((\<forall>a \<in> set rows. (clock_in a = None \<and> clock_out a = None)
          \<or> (\<exists>ci co. strptime_HMS (clock_in a) = Inr ci \<and> strptime_HMS (clock_out a) = Inr co))
      \<and> dates = map date (filter (\<lambda>a. (clock_in a = None \<and> clock_out a = None)
          \<or> (\<exists>ci co. strptime_HMS (clock_in a) = Inr ci \<and> strptime_HMS (clock_out a) = Inr co
                \<and> (time_less (Time 8 15 0) ci \<or> time_less co (Time 16 0 0)))) rows))"
  unfolding check_employee_times_def check_employee_times_loop_Inr
  by (simp add: start_time_def end_time_def)

lemma strptime_HMS_samples:
  "strptime_HMS (Some ''09:00:00'') = Inr (Time 9 0 0)"
  "strptime_HMS (Some ''16:30:00'') = Inr (Time 16 30 0)"
  "strptime_HMS (Some ''08:15:00'') = Inr (Time 8 15 0)"
  "strptime_HMS (Some ''16:00:00'') = Inr (Time 16 0 0)"
  "strptime_HMS (Some ''08:00:00'') = Inr (Time 8 0 0)"
  "strptime_HMS (Some ''15:59:59'') = Inr (Time 15 59 59)"
  "strptime_HMS (Some ''08:15:01'') = Inr (Time 8 15 1)"
  by code_simp+

theorem check_employee_times_records_delinquent_rows_witness:
  "check_employee_times
     [\<lparr>employee_record_id = (1::nat), date = ''2023-03-01'', clock_in = None, clock_out = None\<rparr>,
      \<lparr>employee_record_id = 1, date = ''2023-03-02'', clock_in = Some ''09:00:00'', clock_out = Some ''16:30:00''\<rparr>,
      \<lparr>employee_record_id = 1, date = ''2023-03-03'', clock_in = Some ''08:15:00'', clock_out = Some ''16:00:00''\<rparr>,
      \<lparr>employee_record_id = 1, date = ''2023-03-06'', clock_in = Some ''08:00:00'', clock_out = Some ''15:59:59''\<rparr>,
      \<lparr>employee_record_id = 1, date = ''2023-03-07'', clock_in = Some ''08:15:01'', clock_out = Some ''16:00:00''\<rparr>]
   = Inr [''2023-03-01'', ''2023-03-02'', ''2023-03-06'', ''2023-03-07'']"
  by (rule check_employee_times_records_delinquent_rows [THEN iffD2])
     (simp add: strptime_HMS_samples time_less_def)

subsection \<open>Selection of an employee's rows\<close>

lemma get_employee_attendance_data_loop_Inr:
  "(get_employee_attendance_data_loop rid data yr acc = Inr out) =
     ((\<forall>emp \<in> set data. employee_record_id emp = rid \<longrightarrow>
          (\<exists>b. check_if_date_is_in_year (date emp) yr = Inr b))
      \<and> out = acc @ filter (\<lambda>emp. employee_record_id emp = rid
                 \<and> check_if_date_is_in_year (date emp) yr = Inr True) data)"
proof (induction data arbitrary: acc)
  case Nil
  show ?case by auto
next
  case (Cons emp data)
  show ?case
  proof (cases "employee_record_id emp = rid")
    case False
    then show ?thesis using Cons.IH [of acc] by simp
  next
    case True
    show ?thesis
    proof (cases "check_if_date_is_in_year (date emp) yr")
      case (Inl e)
      with True show ?thesis by simp
    next
      case (Inr b)
      with True show ?thesis
        using Cons.IH [of acc] Cons.IH [of "acc @ [emp]"] by (cases b) auto
    qed
  qed
qed

lemma split_on_no_sep: "sep \<notin> set s \<Longrightarrow> split_on sep s = [s]"
  by (induction s) auto

lemma is_digit_not_space: "is_digit c \<Longrightarrow> \<not> is_space c"
  by (auto simp: is_digit_def is_space_def)

lemma strip_digits:
  assumes "list_all is_digit s"
  shows "strip s = s"
proof (cases "s = []")
  case True
  then show ?thesis by (simp add: strip_def)
next
  case False
  then have "hd s \<in> set s" and "last s \<in> set s" by simp_all
  with assms have h: "\<not> is_space (hd s)" and l: "\<not> is_space (last s)"
    by (auto simp: list_all_iff is_digit_not_space)
  from h False have 1: "dropWhile is_space s = s"
    by (simp add: dropWhile_eq_self_iff)
  from l False have 2: "dropWhile is_space (rev s) = rev s"
    by (simp add: dropWhile_eq_self_iff hd_rev)
  show ?thesis by (simp add: strip_def 1 2)
qed

lemma py_int_digits:
  assumes "list_all is_digit s" and "s \<noteq> []" and "length s \<le> max_str_digits"
  shows "py_int s = Inr (int (decimal s))"
proof -
  from assms have hd: "is_digit (hd s)" by (cases s) simp_all
  then have sign: "hd s \<noteq> CHR ''-''" "hd s \<noteq> CHR ''+''"
    by (auto simp: is_digit_def)
  have "CHR ''_'' \<notin> set s"
    using assms(1) by (auto simp: list_all_iff is_digit_def)
  then have groups: "digit_groups s"
    using assms by (simp add: digit_groups_def split_on_no_sep)
  have filt: "filter is_digit s = s"
    using assms(1) by (simp add: list_all_iff)
  show ?thesis
    unfolding py_int_def strip_digits [OF assms(1)]
    using sign groups filt assms(3) by (simp add: Let_def)
qed

lemma split_on_hd:
  "\<exists>rest. split_on sep s = takeWhile (\<lambda>c. c \<noteq> sep) s # rest"
  by (induction s) (auto split: list.splits)

lemma check_if_date_is_in_year_of_strptime:
  assumes "strptime_Ymd s = Inr d"
  shows "check_if_date_is_in_year s yr = Inr (int (year d) = yr)"
proof -
  from assms obtain y m x where sp: "split_on CHR ''-'' s = [y, m, x]"
    and yf: "year_field y = Some (year d)"
    by (auto simp: strptime_Ymd_def split: list.splits option.splits if_splits)
  from yf have "list_all is_digit y" "y \<noteq> []" "decimal y = year d"
    "length y \<le> max_str_digits"
    by (auto simp: year_field_def max_str_digits_def split: if_splits)
  then have "py_int y = Inr (int (year d))"
    using py_int_digits [of y] by simp
  with sp show ?thesis by (simp add: check_if_date_is_in_year_def)
qed

lemma check_if_date_is_in_year_Inr:
  "(check_if_date_is_in_year s yr = Inr b)
     = (\<exists>y. py_int (hd (split_on CHR ''-'' s)) = Inr y \<and> b = (y = yr))"
proof -
  obtain f rest where sp: "split_on CHR ''-'' s = f # rest"
    using split_on_hd [of "CHR ''-''" s] by blast
  show ?thesis
    unfolding check_if_date_is_in_year_def sp
    by (cases "py_int f") auto
qed

text \<open>
  Claim C8. \<open>get_employee_attendance_data\<close> returns a list exactly when, in every row of
  the employee, the text before the first hyphen of the date is accepted by \<open>int\<close>; the
  list is then the rows of the input, in their original order, whose \<open>employee_record_id\<close>
  equals the given id and for which that number equals the target year. In particular,
  when the dates of the employee's rows are calendar dates written year-month-day, the
  call returns the rows of the employee whose calendar year is the target year.
\<close>

theorem get_employee_attendance_data_is_filter:
  "((get_employee_attendance_data rid data yr = Inr out) =
     ((\<forall>emp \<in> set data. employee_record_id emp = rid \<longrightarrow>
          (\<exists>y. py_int (hd (split_on CHR ''-'' (date emp))) = Inr y))
      \<and> out = filter (\<lambda>emp. employee_record_id emp = rid
                 \<and> py_int (hd (split_on CHR ''-'' (date emp))) = Inr yr) data))
   \<and> ((\<forall>emp \<in> set data. employee_record_id emp = rid \<longrightarrow>
          (\<exists>d. strptime_Ymd (date emp) = Inr d))
      \<longrightarrow> get_employee_attendance_data rid data yr
            = Inr (filter (\<lambda>emp. employee_record_id emp = rid
                 \<and> (\<exists>d. strptime_Ymd (date emp) = Inr d \<and> int (year d) = yr)) data))"
proof (intro conjI impI)
  show "(get_employee_attendance_data rid data yr = Inr out) =
     ((\<forall>emp \<in> set data. employee_record_id emp = rid \<longrightarrow>
          (\<exists>y. py_int (hd (split_on CHR ''-'' (date emp))) = Inr y))
      \<and> out = filter (\<lambda>emp. employee_record_id emp = rid
                 \<and> py_int (hd (split_on CHR ''-'' (date emp))) = Inr yr) data)"
    unfolding get_employee_attendance_data_def get_employee_attendance_data_loop_Inr
      check_if_date_is_in_year_Inr
    by auto
next
  assume wf: "\<forall>emp \<in> set data. employee_record_id emp = rid \<longrightarrow>
          (\<exists>d. strptime_Ymd (date emp) = Inr d)"
  have "filter (\<lambda>emp. employee_record_id emp = rid
                 \<and> check_if_date_is_in_year (date emp) yr = Inr True) data
      = filter (\<lambda>emp. employee_record_id emp = rid
                 \<and> (\<exists>d. strptime_Ymd (date emp) = Inr d \<and> int (year d) = yr)) data"
    using wf by (intro filter_cong refl) (auto simp: check_if_date_is_in_year_of_strptime)
  moreover have "\<forall>emp \<in> set data. employee_record_id emp = rid \<longrightarrow>
          (\<exists>b. check_if_date_is_in_year (date emp) yr = Inr b)"
    using wf by (auto simp: check_if_date_is_in_year_of_strptime)
  ultimately show "get_employee_attendance_data rid data yr
            = Inr (filter (\<lambda>emp. employee_record_id emp = rid
                 \<and> (\<exists>d. strptime_Ymd (date emp) = Inr d \<and> int (year d) = yr)) data)"
    unfolding get_employee_attendance_data_def get_employee_attendance_data_loop_Inr
    by simp
qed

lemma check_if_date_is_in_year_samples:
  "check_if_date_is_in_year ''2023-03-01'' 2023 = Inr True"
  "check_if_date_is_in_year ''2022-12-31'' 2023 = Inr False"
  "check_if_date_is_in_year ''2024-01-01'' 2023 = Inr False"
  "check_if_date_is_in_year ''2023-12-31'' 2023 = Inr True"
  by code_simp+

lemma year_text_samples:
  "py_int ''2023'' = Inr 2023"
  "py_int ''2022'' = Inr 2022"
  "py_int ''2024'' = Inr 2024"
  "py_int '' +2_023 '' = Inr 2023"
  by code_simp+

lemma year_date_samples:
  "strptime_Ymd ''2023-03-01'' = Inr (Date 2023 3 1)"
  "strptime_Ymd ''2022-12-31'' = Inr (Date 2022 12 31)"
  "strptime_Ymd ''2024-01-01'' = Inr (Date 2024 1 1)"
  "strptime_Ymd ''2023-12-31'' = Inr (Date 2023 12 31)"
  by code_simp+

theorem get_employee_attendance_data_is_filter_witness:
  "get_employee_attendance_data (7::nat)
     [\<lparr>employee_record_id = 7, date = ''2022-12-31'', clock_in = None, clock_out = None\<rparr>,
      \<lparr>employee_record_id = 7, date = ''2023-12-31'', clock_in = None, clock_out = None\<rparr>,
      \<lparr>employee_record_id = 8, date = ''2023-03-01'', clock_in = None, clock_out = None\<rparr>,
      \<lparr>employee_record_id = 7, date = ''2023-03-01'', clock_in = None, clock_out = None\<rparr>,
      \<lparr>employee_record_id = 7, date = '' +2_023 -July'', clock_in = None, clock_out = None\<rparr>,
      \<lparr>employee_record_id = 7, date = ''2024-01-01'', clock_in = None, clock_out = None\<rparr>] 2023
   = Inr [\<lparr>employee_record_id = 7, date = ''2023-12-31'', clock_in = None, clock_out = None\<rparr>,
          \<lparr>employee_record_id = 7, date = ''2023-03-01'', clock_in = None, clock_out = None\<rparr>,
          \<lparr>employee_record_id = 7, date = '' +2_023 -July'', clock_in = None, clock_out = None\<rparr>]
   \<and> get_employee_attendance_data (7::nat)
     [\<lparr>employee_record_id = 7, date = ''2022-12-31'', clock_in = None, clock_out = None\<rparr>,
      \<lparr>employee_record_id = 7, date = ''2023-12-31'', clock_in = None, clock_out = None\<rparr>,
      \<lparr>employee_record_id = 8, date = ''2023-03-01'', clock_in = None, clock_out = None\<rparr>,
      \<lparr>employee_record_id = 7, date = ''2023-03-01'', clock_in = None, clock_out = None\<rparr>,
      \<lparr>employee_record_id = 7, date = ''2024-01-01'', clock_in = None, clock_out = None\<rparr>] 2023
   = Inr [\<lparr>employee_record_id = 7, date = ''2023-12-31'', clock_in = None, clock_out = None\<rparr>,
          \<lparr>employee_record_id = 7, date = ''2023-03-01'', clock_in = None, clock_out = None\<rparr>]"
proof (rule conjI)
  show "get_employee_attendance_data (7::nat)
     [\<lparr>employee_record_id = 7, date = ''2022-12-31'', clock_in = None, clock_out = None\<rparr>,
      \<lparr>employee_record_id = 7, date = ''2023-12-31'', clock_in = None, clock_out = None\<rparr>,
      \<lparr>employee_record_id = 8, date = ''2023-03-01'', clock_in = None, clock_out = None\<rparr>,
      \<lparr>employee_record_id = 7, date = ''2023-03-01'', clock_in = None, clock_out = None\<rparr>,
      \<lparr>employee_record_id = 7, date = '' +2_023 -July'', clock_in = None, clock_out = None\<rparr>,
      \<lparr>employee_record_id = 7, date = ''2024-01-01'', clock_in = None, clock_out = None\<rparr>] 2023
   = Inr [\<lparr>employee_record_id = 7, date = ''2023-12-31'', clock_in = None, clock_out = None\<rparr>,
          \<lparr>employee_record_id = 7, date = ''2023-03-01'', clock_in = None, clock_out = None\<rparr>,
          \<lparr>employee_record_id = 7, date = '' +2_023 -July'', clock_in = None, clock_out = None\<rparr>]"
    by (rule get_employee_attendance_data_is_filter [THEN conjunct1, THEN iffD2])
       (auto simp: year_text_samples)
next
  have "get_employee_attendance_data (7::nat)
     [\<lparr>employee_record_id = 7, date = ''2022-12-31'', clock_in = None, clock_out = None\<rparr>,
      \<lparr>employee_record_id = 7, date = ''2023-12-31'', clock_in = None, clock_out = None\<rparr>,
      \<lparr>employee_record_id = 8, date = ''2023-03-01'', clock_in = None, clock_out = None\<rparr>,
      \<lparr>employee_record_id = 7, date = ''2023-03-01'', clock_in = None, clock_out = None\<rparr>,
      \<lparr>employee_record_id = 7, date = ''2024-01-01'', clock_in = None, clock_out = None\<rparr>] 2023
   = Inr (filter (\<lambda>emp. employee_record_id emp = 7
            \<and> (\<exists>d. strptime_Ymd (date emp) = Inr d \<and> int (year d) = 2023))
     [\<lparr>employee_record_id = 7, date = ''2022-12-31'', clock_in = None, clock_out = None\<rparr>,
      \<lparr>employee_record_id = 7, date = ''2023-12-31'', clock_in = None, clock_out = None\<rparr>,
      \<lparr>employee_record_id = 8, date = ''2023-03-01'', clock_in = None, clock_out = None\<rparr>,
      \<lparr>employee_record_id = 7, date = ''2023-03-01'', clock_in = None, clock_out = None\<rparr>,
      \<lparr>employee_record_id = 7, date = ''2024-01-01'', clock_in = None, clock_out = None\<rparr>])"
    by (rule get_employee_attendance_data_is_filter [THEN conjunct2, THEN mp])
       (simp add: year_date_samples)
  then show "get_employee_attendance_data (7::nat)
     [\<lparr>employee_record_id = 7, date = ''2022-12-31'', clock_in = None, clock_out = None\<rparr>,
      \<lparr>employee_record_id = 7, date = ''2023-12-31'', clock_in = None, clock_out = None\<rparr>,
      \<lparr>employee_record_id = 8, date = ''2023-03-01'', clock_in = None, clock_out = None\<rparr>,
      \<lparr>employee_record_id = 7, date = ''2023-03-01'', clock_in = None, clock_out = None\<rparr>,
      \<lparr>employee_record_id = 7, date = ''2024-01-01'', clock_in = None, clock_out = None\<rparr>] 2023
   = Inr [\<lparr>employee_record_id = 7, date = ''2023-12-31'', clock_in = None, clock_out = None\<rparr>,
          \<lparr>employee_record_id = 7, date = ''2023-03-01'', clock_in = None, clock_out = None\<rparr>]"
    by (simp add: year_date_samples)
qed

subsection \<open>Average hours per week\<close>

lemma sum_update_new:
  "map_of al k = None \<Longrightarrow>
   sum_list (map snd (AList.update k v al)) = sum_list (map snd al) + (v :: rat)"
  by (induction al) (auto split: if_splits)

lemma sum_update_old:
  "map_of al k = Some v0 \<Longrightarrow>
   sum_list (map snd (AList.update k v al)) + v0 = sum_list (map snd al) + (v :: rat)"
  by (induction al) (auto split: if_splits)

lemma total_hours_per_week_loop_Inr:
  assumes "map row_hours rows = map Inr hs" and "map row_week rows = map Inr ws"
    and "distinct (map fst d)"
  shows "\<exists>d'. total_hours_per_week_loop rows d = Inr d' \<and> distinct (map fst d')
           \<and> set (map fst d') = set (map fst d) \<union> set ws
           \<and> sum_list (map snd d') = sum_list (map snd d) + sum_list hs"
  using assms
proof (induction rows arbitrary: d hs ws)
  case Nil
  then show ?case by simp
next
  case (Cons a rows)
  from Cons.prems(1) obtain h hs' where hs: "hs = h # hs'" "row_hours a = Inr h"
    "map row_hours rows = map Inr hs'" by (cases hs) auto
  from Cons.prems(2) obtain w ws' where ws: "ws = w # ws'" "row_week a = Inr w"
    "map row_week rows = map Inr ws'" by (cases ws) auto
  define d1 where "d1 = (case map_of d w of
       None \<Rightarrow> AList.update w (0 + h) d | Some v \<Rightarrow> AList.update w (v + h) d)"
  have step: "total_hours_per_week_loop (a # rows) d = total_hours_per_week_loop rows d1"
    by (simp add: hs ws d1_def)
  have dist: "distinct (map fst d1)"
    using Cons.prems(3) by (simp add: d1_def distinct_update split: option.splits)
  have keys: "set (map fst d1) = insert w (set (map fst d))"
    by (simp add: d1_def dom_update split: option.splits)
  have total: "sum_list (map snd d1) = sum_list (map snd d) + h"
  proof (cases "map_of d w")
    case None
    then show ?thesis by (simp add: d1_def sum_update_new)
  next
    case (Some v)
    then show ?thesis using sum_update_old [OF Some, of "v + h"] by (simp add: d1_def)
  qed
  from Cons.IH [OF hs(3) ws(3) dist] obtain d' where
    "total_hours_per_week_loop rows d1 = Inr d'" "distinct (map fst d')"
    "set (map fst d') = set (map fst d1) \<union> set ws'"
    "sum_list (map snd d') = sum_list (map snd d1) + sum_list hs'" by blast
  then show ?case
    unfolding step using keys total hs(1) ws(1) by auto
qed

text \<open>
  In exact arithmetic: for a non-empty list of rows whose hours \<open>hs\<close> and week numbers
  \<open>ws\<close> can all be computed, \<open>calculate_average_hours_per_week\<close> returns the sum of the
  hours of all rows divided by the number of distinct week numbers.
\<close>

lemma calculate_average_hours_per_week_value:
  assumes "rows \<noteq> []"
    and "map row_hours rows = map Inr hs" and "map row_week rows = map Inr ws"
  shows "calculate_average_hours_per_week rows
           = Inr (sum_list hs / of_nat (card (set ws)))"
proof -
  from total_hours_per_week_loop_Inr [OF assms(2,3), of "[]"] obtain d' where
    d': "total_hours_per_week_loop rows [] = Inr d'" "distinct (map fst d')"
      "set (map fst d') = set ws" "sum_list (map snd d') = sum_list hs" by auto
  have "length d' = card (set ws)"
    using distinct_card [OF d'(2)] d'(3) by simp
  moreover have "ws \<noteq> []" using assms(1,3) by (cases rows; cases ws) auto
  then have "card (set ws) \<noteq> 0" by simp
  ultimately show ?thesis
    by (simp add: calculate_average_hours_per_week_def d')
qed

lemma row_hours_present:
  assumes "clock_in a = Some s" and "clock_out a = Some t"
    and "strptime_HMS (Some s) = Inr ci" and "strptime_HMS (Some t) = Inr co"
  shows "row_hours a = Inr (of_int (seconds_of co - seconds_of ci) / 3600)"
  using assms by (simp add: row_hours_def calculate_total_hours_def)

lemma row_hours_absent:
  "clock_in a = None \<or> clock_out a = None \<Longrightarrow> row_hours a = Inr 0"
  by (auto simp: row_hours_def split: option.splits)

lemma row_samples:
  "row_hours \<lparr>employee_record_id = (7::nat), date = ''2023-01-02'', clock_in = Some ''08:00:00'', clock_out = Some ''16:30:00''\<rparr> = Inr (17 / 2)"
  "row_hours \<lparr>employee_record_id = (7::nat), date = ''2023-01-03'', clock_in = None, clock_out = None\<rparr> = Inr 0"
  "row_hours \<lparr>employee_record_id = (7::nat), date = ''2023-01-09'', clock_in = Some ''09:00:00'', clock_out = Some ''16:30:00''\<rparr> = Inr (15 / 2)"
  "row_hours \<lparr>employee_record_id = (7::nat), date = ''2023-01-23'', clock_in = Some ''09:00:00'', clock_out = None\<rparr> = Inr 0"
  "row_week \<lparr>employee_record_id = (7::nat), date = ''2023-01-02'', clock_in = Some ''08:00:00'', clock_out = Some ''16:30:00''\<rparr> = Inr 1"
  "row_week \<lparr>employee_record_id = (7::nat), date = ''2023-01-03'', clock_in = None, clock_out = None\<rparr> = Inr 1"
  "row_week \<lparr>employee_record_id = (7::nat), date = ''2023-01-09'', clock_in = Some ''09:00:00'', clock_out = Some ''16:30:00''\<rparr> = Inr 2"
  "row_week \<lparr>employee_record_id = (7::nat), date = ''2023-01-23'', clock_in = Some ''09:00:00'', clock_out = None\<rparr> = Inr 4"
  by code_simp+

lemma calculate_average_hours_per_week_value_example:
  "calculate_average_hours_per_week
     [\<lparr>employee_record_id = (7::nat), date = ''2023-01-02'', clock_in = Some ''08:00:00'', clock_out = Some ''16:30:00''\<rparr>,
      \<lparr>employee_record_id = 7, date = ''2023-01-03'', clock_in = None, clock_out = None\<rparr>,
      \<lparr>employee_record_id = 7, date = ''2023-01-09'', clock_in = Some ''09:00:00'', clock_out = Some ''16:30:00''\<rparr>,
      \<lparr>employee_record_id = 7, date = ''2023-01-23'', clock_in = Some ''09:00:00'', clock_out = None\<rparr>]
   = Inr (16 / 3)"
  using calculate_average_hours_per_week_value
    [of "[\<lparr>employee_record_id = (7::nat), date = ''2023-01-02'', clock_in = Some ''08:00:00'', clock_out = Some ''16:30:00''\<rparr>,
      \<lparr>employee_record_id = 7, date = ''2023-01-03'', clock_in = None, clock_out = None\<rparr>,
      \<lparr>employee_record_id = 7, date = ''2023-01-09'', clock_in = Some ''09:00:00'', clock_out = Some ''16:30:00''\<rparr>,
      \<lparr>employee_record_id = 7, date = ''2023-01-23'', clock_in = Some ''09:00:00'', clock_out = None\<rparr>]"
     "[17 / 2, 0, 15 / 2, 0]" "[1, 1, 2, 4]"]
  by (simp add: row_samples)

lemma calculate_average_hours_per_week_Nil:
  "calculate_average_hours_per_week [] = Inl ZeroDivisionError"
  by (simp add: calculate_average_hours_per_week_def)

subsection \<open>Calendar days\<close>

lemma toordinal_next_month:
  assumes "1 \<le> m" and "m < 12"
  shows "toordinal (Date y (Suc m) 1) = toordinal (Date y m (days_in_month y m)) + 1"
proof -
  from assms have "m = 1 \<or> m = 2 \<or> m = 3 \<or> m = 4 \<or> m = 5 \<or> m = 6 \<or> m = 7 \<or> m = 8
     \<or> m = 9 \<or> m = 10 \<or> m = 11" by arith
  then show ?thesis
    by (elim disjE) (simp_all add: toordinal_def ymd2ord_def days_before_month_def days_in_month_def)
qed

subsection \<open>Weather exclusion and event correlation\<close>

lemma weather_set_Inr:
  "(weather_set weather_data c = Inr S) =
     ((\<forall>w \<in> set weather_data. weather_country w = c \<longrightarrow>
          (\<exists>b. check_if_date_is_in_year (weather_date w) 2023 = Inr b))
      \<and> S = {weather_date w | w. w \<in> set weather_data \<and> weather_country w = c
               \<and> check_if_date_is_in_year (weather_date w) 2023 = Inr True
               \<and> (condition w \<in> {''hail'', ''thunderstorm'', ''blizzard'', ''hurricane''}
                    \<or> max_temp w > 40)})"
proof (induction weather_data arbitrary: S)
  case Nil
  show ?case by auto
next
  case (Cons w rest)
  show ?case
  proof (cases "weather_country w = c")
    case False
    then show ?thesis using Cons.IH [of S] by auto
  next
    case True
    show ?thesis
    proof (cases "check_if_date_is_in_year (weather_date w) 2023")
      case (Inl e)
      with True show ?thesis by auto
    next
      case (Inr b)
      show ?thesis
      proof (cases "weather_set rest c")
        case (Inl e)
        with True Inr show ?thesis using Cons.IH by auto
      next
        case S': (Inr S')
        from Cons.IH [of S'] S' have ok: "\<forall>w \<in> set rest. weather_country w = c \<longrightarrow>
            (\<exists>b. check_if_date_is_in_year (weather_date w) 2023 = Inr b)"
          and S'_eq: "S' = {weather_date w | w. w \<in> set rest \<and> weather_country w = c
               \<and> check_if_date_is_in_year (weather_date w) 2023 = Inr True
               \<and> (condition w \<in> {''hail'', ''thunderstorm'', ''blizzard'', ''hurricane''}
                    \<or> max_temp w > 40)}" by auto
        let ?severe = "condition w \<in> {''hail'', ''thunderstorm'', ''blizzard'', ''hurricane''}
                    \<or> max_temp w > 40"
        have val: "weather_set (w # rest) c
             = Inr (if b \<and> ?severe then insert (weather_date w) S' else S')"
          using True Inr S' by auto
        have set_eq: "{weather_date x | x. x \<in> set (w # rest) \<and> weather_country x = c
               \<and> check_if_date_is_in_year (weather_date x) 2023 = Inr True
               \<and> (condition x \<in> {''hail'', ''thunderstorm'', ''blizzard'', ''hurricane''}
                    \<or> max_temp x > 40)}
            = (if b \<and> ?severe then insert (weather_date w) S' else S')"
          unfolding S'_eq using True Inr by auto
        show ?thesis unfolding val set_eq using ok True Inr by auto
      qed
    qed
  qed
qed


lemma event_set_Inr:
  "(event_set events_data c = Inr S) =
     ((\<forall>ev \<in> set events_data. country ev = c \<longrightarrow>
          (\<exists>b. check_if_date_is_in_year (event_date ev) 2023 = Inr b))
      \<and> S = {(event_date ev, event_name ev) | ev. ev \<in> set events_data \<and> country ev = c
               \<and> check_if_date_is_in_year (event_date ev) 2023 = Inr True})"
proof (induction events_data arbitrary: S)
  case Nil
  show ?case by auto
next
  case (Cons ev rest)
  show ?case
  proof (cases "country ev = c")
    case False
    then show ?thesis using Cons.IH [of S] by auto
  next
    case True
    show ?thesis
    proof (cases "check_if_date_is_in_year (event_date ev) 2023")
      case (Inl e)
      with True show ?thesis by auto
    next
      case (Inr b)
      show ?thesis
      proof (cases "event_set rest c")
        case (Inl e)
        with True Inr show ?thesis using Cons.IH by auto
      next
        case S': (Inr S')
        from Cons.IH [of S'] S' have ok: "\<forall>ev \<in> set rest. country ev = c \<longrightarrow>
            (\<exists>b. check_if_date_is_in_year (event_date ev) 2023 = Inr b)"
          and S'_eq: "S' = {(event_date ev, event_name ev) | ev. ev \<in> set rest \<and> country ev = c
               \<and> check_if_date_is_in_year (event_date ev) 2023 = Inr True}" by auto
        have val: "event_set (ev # rest) c
             = Inr (if b then insert (event_date ev, event_name ev) S' else S')"
          using True Inr S' by auto
        have set_eq: "{(event_date x, event_name x) | x. x \<in> set (ev # rest) \<and> country x = c
               \<and> check_if_date_is_in_year (event_date x) 2023 = Inr True}
            = (if b then insert (event_date ev, event_name ev) S' else S')"
          unfolding S'_eq using True Inr by auto
        show ?thesis unfolding val set_eq using ok True Inr by auto
      qed
    qed
  qed
qed

lemma events_near_date_Inr:
  "(events_near_date c D evs acc = Inr out) =
     ((\<forall>p \<in> set evs. \<exists>e. strptime_Ymd (fst p) = Inr e)
      \<and> out = acc @ map (event_reason c) (filter (\<lambda>p. near_date D (fst p)) evs))"
proof (induction evs arbitrary: acc)
  case Nil
  show ?case by auto
next
  case (Cons p evs)
  show ?case
  proof (cases "strptime_Ymd (fst p)")
    case (Inl e)
    then show ?thesis by simp
  next
    case (Inr e)
    then show ?thesis
      using Cons.IH [of acc] Cons.IH [of "acc @ [event_reason c p]"] by simp
  qed
qed

lemma event_reasons_Inr:
  "(event_reasons c ds evs acc = Inr out) =
     (\<exists>Ds. map strptime_Ymd ds = map Inr Ds
        \<and> (ds \<noteq> [] \<longrightarrow> (\<forall>p \<in> set evs. \<exists>e. strptime_Ymd (fst p) = Inr e))
        \<and> out = acc @ concat (map (\<lambda>D. map (event_reason c)
                                 (filter (\<lambda>p. near_date D (fst p)) evs)) Ds))"
proof (induction ds arbitrary: acc)
  case Nil
  show ?case by auto
next
  case (Cons d ds)
  show ?case
  proof (cases "strptime_Ymd d")
    case (Inl e)
    then show ?thesis by auto
  next
    case D: (Inr D)
    show ?thesis
    proof (cases "events_near_date c D evs acc")
      case (Inl e)
      then have "\<not> (\<forall>p \<in> set evs. \<exists>e. strptime_Ymd (fst p) = Inr e)"
        using events_near_date_Inr [of c D evs acc] by auto
      with D Inl show ?thesis by auto
    next
      case (Inr acc')
      then have ok: "\<forall>p \<in> set evs. \<exists>e. strptime_Ymd (fst p) = Inr e"
        and acc': "acc' = acc @ map (event_reason c) (filter (\<lambda>p. near_date D (fst p)) evs)"
        using events_near_date_Inr [of c D evs acc acc'] by auto
      have step: "event_reasons c (d # ds) evs acc = event_reasons c ds evs acc'"
        using D Inr by simp
      have IH: "(event_reasons c (d # ds) evs acc = Inr out) =
          (\<exists>Ds. map strptime_Ymd ds = map Inr Ds
             \<and> (ds \<noteq> [] \<longrightarrow> (\<forall>p \<in> set evs. \<exists>e. strptime_Ymd (fst p) = Inr e))
             \<and> out = acc' @ concat (map (\<lambda>D. map (event_reason c)
                                 (filter (\<lambda>p. near_date D (fst p)) evs)) Ds))"
        unfolding step by (rule Cons.IH)
      show ?thesis
        unfolding IH
      proof (intro iffI; elim exE conjE)
        fix Ds
        assume "map strptime_Ymd ds = map Inr Ds"
          and "out = acc' @
                 concat (map (\<lambda>D. map (event_reason c) (filter (\<lambda>p. near_date D (fst p)) evs)) Ds)"
        then show "\<exists>Ds. map strptime_Ymd (d # ds) = map Inr Ds
            \<and> (d # ds \<noteq> [] \<longrightarrow> (\<forall>p \<in> set evs. \<exists>e. strptime_Ymd (fst p) = Inr e))
            \<and> out = acc @ concat (map (\<lambda>D. map (event_reason c)
                                 (filter (\<lambda>p. near_date D (fst p)) evs)) Ds)"
          using D ok acc' by (intro exI [of _ "D # Ds"]) simp
      next
        fix Ds
        assume m: "map strptime_Ymd (d # ds) = map Inr Ds"
          and o: "out = acc @ concat (map (\<lambda>D. map (event_reason c)
                                 (filter (\<lambda>p. near_date D (fst p)) evs)) Ds)"
        from m D obtain Ds' where Ds: "Ds = D # Ds'" "map strptime_Ymd ds = map Inr Ds'"
          by (cases Ds) auto
        show "\<exists>Ds. map strptime_Ymd ds = map Inr Ds
            \<and> (ds \<noteq> [] \<longrightarrow> (\<forall>p \<in> set evs. \<exists>e. strptime_Ymd (fst p) = Inr e))
            \<and> out = acc' @
                 concat (map (\<lambda>D. map (event_reason c) (filter (\<lambda>p. near_date D (fst p)) evs)) Ds)"
          using Ds o ok acc' by (intro exI [of _ Ds']) simp
      qed
    qed
  qed
qed

lemma near_date_iff:
  "strptime_Ymd E = Inr e \<Longrightarrow>
   near_date D E = (toordinal e = toordinal D - 1 \<or> toordinal e = toordinal D
                     \<or> toordinal e = toordinal D + 1)"
  by (auto simp: near_date_def)

lemma near_date_parses: "near_date D E \<Longrightarrow> \<exists>e. strptime_Ymd E = Inr e"
  by (auto simp: near_date_def split: sum.splits)

lemma near_date_conv:
  "near_date D E = (\<exists>e. strptime_Ymd E = Inr e
      \<and> (toordinal e = toordinal D - 1 \<or> toordinal e = toordinal D
            \<or> toordinal e = toordinal D + 1))"
  by (cases "strptime_Ymd E") (auto simp: near_date_def)

lemma two_days_away_not_near:
  "strptime_Ymd E = Inr e \<Longrightarrow>
   toordinal e = toordinal D - 2 \<or> toordinal e = toordinal D + 2 \<Longrightarrow> \<not> near_date D E"
  by (auto simp: near_date_def)

text \<open>
  Claim C3. The nested loop over the unexplained delinquent dates \<open>ds\<close> and the qualifying
  events \<open>evs\<close> returns a list exactly when every date parses (and, if there is a date,
  every event date parses). The list is then, date by date in the order of \<open>ds\<close>, the
  candidates \<open>{country, event_name, event_date}\<close> of exactly those events whose date is the
  day before the delinquent date \<open>D\<close>, \<open>D\<close> itself or the day after. An event two days
  before or after \<open>D\<close> is not emitted for \<open>D\<close> (\<open>two_days_away_not_near\<close>).
\<close>

theorem event_reasons_emits_events_within_a_day:
  "(event_reasons c ds evs [] = Inr cands) =
     (\<exists>Ds. map strptime_Ymd ds = map Inr Ds
        \<and> (ds \<noteq> [] \<longrightarrow> (\<forall>p \<in> set evs. \<exists>e. strptime_Ymd (fst p) = Inr e))
        \<and> cands = concat (map (\<lambda>D. map (event_reason c)
              (filter (\<lambda>p. \<exists>e. strptime_Ymd (fst p) = Inr e
                   \<and> (toordinal e = toordinal D - 1 \<or> toordinal e = toordinal D
                         \<or> toordinal e = toordinal D + 1)) evs)) Ds))"
  unfolding event_reasons_Inr near_date_conv by simp

lemma strptime_Ymd_samples:
  "strptime_Ymd ''2023-03-12'' = Inr (Date 2023 3 12)"
  "strptime_Ymd ''2023-03-13'' = Inr (Date 2023 3 13)"
  "strptime_Ymd ''2023-03-14'' = Inr (Date 2023 3 14)"
  "strptime_Ymd ''2023-03-15'' = Inr (Date 2023 3 15)"
  "strptime_Ymd ''2023-03-16'' = Inr (Date 2023 3 16)"
  by code_simp+

lemma toordinal_samples:
  "toordinal (Date 2023 3 12) = 738591"
  "toordinal (Date 2023 3 13) = 738592"
  "toordinal (Date 2023 3 14) = 738593"
  "toordinal (Date 2023 3 15) = 738594"
  "toordinal (Date 2023 3 16) = 738595"
  by code_simp+

theorem event_reasons_emits_events_within_a_day_witness:
  "event_reasons ''US'' [''2023-03-14'']
     [(''2023-03-12'', ''Parade''), (''2023-03-13'', ''Fair''), (''2023-03-14'', ''Derby''),
      (''2023-03-15'', ''Gala''), (''2023-03-16'', ''Expo'')] []
   = Inr [\<lparr>country = ''US'', event_name = ''Fair'', event_date = ''2023-03-13''\<rparr>,
          \<lparr>country = ''US'', event_name = ''Derby'', event_date = ''2023-03-14''\<rparr>,
          \<lparr>country = ''US'', event_name = ''Gala'', event_date = ''2023-03-15''\<rparr>]"
  by (rule event_reasons_emits_events_within_a_day [THEN iffD2],
      rule exI [of _ "[Date 2023 3 14]"])
     (simp add: strptime_Ymd_samples toordinal_samples event_reason_def)

lemma toordinal_next_day: "toordinal (Date y m (Suc d)) = toordinal (Date y m d) + 1"
  by (simp add: toordinal_def ymd2ord_def)

text \<open>
  The hand-rolled \<open>check_dates_against_events\<close>. When it returns, the set of severe-weather dates it
  built is exactly the set of the dates of the weather rows whose country is the
  employee's, whose year is 2023 and whose condition is hail, thunderstorm, blizzard or
  hurricane or whose \<open>max_temp\<close> exceeds 40; and the dates it correlates with the events are
  the delinquent dates minus that set, as a set difference.
\<close>

theorem check_dates_against_events_drops_severe_weather_dates:
  assumes "check_dates_against_events date_order event_order weather_data events_data poor c
             = Inr out"
  shows "\<exists>es cands.
       weather_set weather_data c
         = Inr {weather_date w | w. w \<in> set weather_data \<and> weather_country w = c
                 \<and> check_if_date_is_in_year (weather_date w) 2023 = Inr True
                 \<and> (condition w \<in> {''hail'', ''thunderstorm'', ''blizzard'', ''hurricane''}
                      \<or> max_temp w > 40)}
     \<and> event_set events_data c = Inr es
     \<and> event_reasons c
          (date_order (weather_data, poor, c) (set poor -
             {weather_date w | w. w \<in> set weather_data \<and> weather_country w = c
                 \<and> check_if_date_is_in_year (weather_date w) 2023 = Inr True
                 \<and> (condition w \<in> {''hail'', ''thunderstorm'', ''blizzard'', ''hurricane''}
                      \<or> max_temp w > 40)}))
          (event_order (events_data, c) es) [] = Inr cands
     \<and> out = remove_duplicate_events cands"
proof -
  from assms obtain ws where ws: "weather_set weather_data c = Inr ws"
    by (auto simp: check_dates_against_events_def split: sum.splits)
  from assms ws obtain es where es: "event_set events_data c = Inr es"
    by (auto simp: check_dates_against_events_def split: sum.splits)
  from assms ws es obtain cands where
    cands: "event_reasons c (date_order (weather_data, poor, c) (set poor - ws))
        (event_order (events_data, c) es) [] = Inr cands"
    and out: "out = remove_duplicate_events cands"
    by (auto simp: check_dates_against_events_def Let_def split: sum.splits)
  from ws have "ws = {weather_date w | w. w \<in> set weather_data \<and> weather_country w = c
                 \<and> check_if_date_is_in_year (weather_date w) 2023 = Inr True
                 \<and> (condition w \<in> {''hail'', ''thunderstorm'', ''blizzard'', ''hurricane''}
                      \<or> max_temp w > 40)}"
    unfolding weather_set_Inr by blast
  with ws es cands out show ?thesis by blast
qed

subsection \<open>The report loop\<close>

lemma identify_delinquent_employees_loop_Inr:
  "(identify_delinquent_employees_loop date_order event_order weather_data events_data
        attendance_data emps acc = Inr out) =
     (\<exists>rs. map (analyse_employee date_order event_order weather_data events_data
                   attendance_data) emps = map Inr rs
        \<and> out = acc @ map (\<lambda>(emp, r). employee_information emp (fst r) (snd r))
                        (filter (\<lambda>(emp, r). length (snd r) > 3) (zip emps rs)))"
proof (induction emps arbitrary: acc)
  case Nil
  show ?case by auto
next
  case (Cons emp emps)
  let ?an = "analyse_employee date_order event_order weather_data events_data attendance_data"
  show ?case
  proof (cases "?an emp")
    case (Inl e)
    then show ?thesis by auto
  next
    case (Inr r)
    define acc' where "acc' = (if length (snd r) > 3
        then acc @ [employee_information emp (fst r) (snd r)] else acc)"
    have step: "identify_delinquent_employees_loop date_order event_order weather_data
        events_data attendance_data (emp # emps) acc
      = identify_delinquent_employees_loop date_order event_order weather_data
        events_data attendance_data emps acc'"
      using Inr by (cases r) (simp add: acc'_def)
    have IH: "(identify_delinquent_employees_loop date_order event_order weather_data
        events_data attendance_data (emp # emps) acc = Inr out) =
       (\<exists>rs. map ?an emps = map Inr rs
        \<and> out = acc' @ map (\<lambda>(emp, r). employee_information emp (fst r) (snd r))
                        (filter (\<lambda>(emp, r). length (snd r) > 3) (zip emps rs)))"
      unfolding step by (rule Cons.IH)
    show ?thesis
      unfolding IH
    proof (intro iffI; elim exE conjE)
      fix rs
      assume "map ?an emps = map Inr rs"
        and "out = acc' @ map (\<lambda>(emp, r). employee_information emp (fst r) (snd r))
                        (filter (\<lambda>(emp, r). length (snd r) > 3) (zip emps rs))"
      then show "\<exists>rs. map ?an (emp # emps) = map Inr rs
        \<and> out = acc @ map (\<lambda>(emp, r). employee_information emp (fst r) (snd r))
                        (filter (\<lambda>(emp, r). length (snd r) > 3) (zip (emp # emps) rs))"
        using Inr by (intro exI [of _ "r # rs"]) (simp add: acc'_def)
    next
      fix rs
      assume m: "map ?an (emp # emps) = map Inr rs"
        and o: "out = acc @ map (\<lambda>(emp, r). employee_information emp (fst r) (snd r))
                        (filter (\<lambda>(emp, r). length (snd r) > 3) (zip (emp # emps) rs))"
      from m Inr obtain rs' where rs: "rs = r # rs'" "map ?an emps = map Inr rs'"
        by (cases rs) auto
      show "\<exists>rs. map ?an emps = map Inr rs
        \<and> out = acc' @ map (\<lambda>(emp, r). employee_information emp (fst r) (snd r))
                        (filter (\<lambda>(emp, r). length (snd r) > 3) (zip emps rs))"
        using rs o by (intro exI [of _ rs']) (simp add: acc'_def)
    qed
  qed
qed

text \<open>
  Claim C6. \<open>identify_delinquent_employees\<close> returns a list exactly when the analysis of
  every employee of the roster succeeds, and the list is then made of one report for each
  employee, in roster order, whose deduplicated list of qualifying events has more than 3
  entries. An employee with 3 events or fewer leaves no record at all.
\<close>

theorem identify_delinquent_employees_reports_more_than_three:
  "(identify_delinquent_employees date_order event_order weather_data events_data
        employee_data attendance_data = Inr out) =
     (\<exists>rs. map (analyse_employee date_order event_order weather_data events_data
                   attendance_data) employee_data = map Inr rs
        \<and> out = map (\<lambda>(emp, r). employee_information emp (fst r) (snd r))
                   (filter (\<lambda>(emp, r). length (snd r) > 3) (zip employee_data rs)))"
  unfolding identify_delinquent_employees_def identify_delinquent_employees_loop_Inr by simp

lemma identify_delinquent_employees_fails:
  assumes "emp \<in> set employee_data"
    and "analyse_employee date_order event_order weather_data events_data attendance_data emp
           = Inl e"
  shows "\<exists>e'. identify_delinquent_employees date_order event_order weather_data events_data
           employee_data attendance_data = Inl e'"
proof (cases "identify_delinquent_employees date_order event_order weather_data events_data
           employee_data attendance_data")
  case (Inl e')
  then show ?thesis by blast
next
  case (Inr out)
  then obtain rs where "map (analyse_employee date_order event_order weather_data events_data
                   attendance_data) employee_data = map Inr rs"
    unfolding identify_delinquent_employees_def identify_delinquent_employees_loop_Inr by blast
  then have "analyse_employee date_order event_order weather_data events_data
                   attendance_data emp \<in> set (map Inr rs)"
    using assms(1) by (metis image_eqI list.set_map)
  with assms(2) show ?thesis by auto
qed

lemma analyse_employee_no_rows:
  assumes "get_employee_attendance_data (record_id emp) attendance_data 2023 = Inr []"
  shows "\<exists>e. analyse_employee date_order event_order weather_data events_data
           attendance_data emp = Inl e"
  using assms
  by (auto simp: analyse_employee_def check_employee_times_def
        calculate_average_hours_per_week_def split: sum.splits)

lemma analyse_employee_no_rows_ZeroDivisionError:
  assumes "get_employee_attendance_data (record_id emp) attendance_data 2023 = Inr []"
    and "weather_set weather_data (employee_country emp) = Inr ws"
    and "event_set events_data (employee_country emp) = Inr es"
    and "lists_set (date_order (weather_data, [], employee_country emp)) {}"
  shows "analyse_employee date_order event_order weather_data events_data
           attendance_data emp = Inl ZeroDivisionError"
proof -
  from assms(4) have "date_order (weather_data, [], employee_country emp) {} = []"
    by (simp add: lists_set_def)
  then show ?thesis
    using assms(1-3)
    by (simp add: analyse_employee_def check_employee_times_def
        check_dates_against_events_def remove_duplicate_events_def
        calculate_average_hours_per_week_def)
qed

text \<open>
  Claim C7. For an employee with no attendance row in 2023 the average is computed on the
  empty list, and \<open>calculate_average_hours_per_week\<close> raises \<open>ZeroDivisionError\<close>. Nothing
  catches it: \<open>identify_delinquent_employees\<close> ends with an error and returns no report.
\<close>

theorem no_attendance_rows_division_by_zero:
  assumes "emp \<in> set employee_data"
    and "get_employee_attendance_data (record_id emp) attendance_data 2023 = Inr rows"
    and "rows = []"
  shows "calculate_average_hours_per_week rows = Inl ZeroDivisionError
     \<and> (\<exists>e. identify_delinquent_employees date_order event_order weather_data events_data
           employee_data attendance_data = Inl e)"
proof -
  from assms(2,3) have "get_employee_attendance_data (record_id emp) attendance_data 2023
      = Inr []" by simp
  from analyse_employee_no_rows [OF this] obtain e where
    "analyse_employee date_order event_order weather_data events_data attendance_data emp
       = Inl e" by blast
  from identify_delinquent_employees_fails [OF assms(1) this] show ?thesis
    using assms(3) by (simp add: calculate_average_hours_per_week_def)
qed

lemma analyse_employee_one_null:
  assumes "get_employee_attendance_data (record_id emp) attendance_data 2023 = Inr rows"
    and "a \<in> set rows" and "(clock_in a = None) \<noteq> (clock_out a = None)"
  shows "\<exists>e. analyse_employee date_order event_order weather_data events_data
           attendance_data emp = Inl e"
proof -
  have "\<exists>e. check_employee_times rows = Inl e"
  proof (cases "check_employee_times rows")
    case (Inl e)
    then show ?thesis by blast
  next
    case (Inr ds)
    then have "(clock_in a = None \<and> clock_out a = None)
      \<or> (\<exists>ci co. strptime_HMS (clock_in a) = Inr ci \<and> strptime_HMS (clock_out a) = Inr co)"
      using assms(2) unfolding check_employee_times_def check_employee_times_loop_Inr by blast
    with assms(3) show ?thesis by (auto simp: strptime_HMS_None)
  qed
  then show ?thesis using assms(1) by (auto simp: analyse_employee_def)
qed

subsection \<open>A row with one clock value\<close>

lemma strptime_HMS_Some_error: "strptime_HMS (Some s) = Inl e \<Longrightarrow> e = ValueError"
  by (auto simp: strptime_HMS_def split: list.splits option.splits)

lemma check_employee_times_loop_append:
  assumes "\<forall>b \<in> set before. (clock_in b = None \<and> clock_out b = None)
          \<or> (\<exists>ci co. strptime_HMS (clock_in b) = Inr ci \<and> strptime_HMS (clock_out b) = Inr co)"
  shows "\<exists>acc'. check_employee_times_loop (before @ rest) acc
           = check_employee_times_loop rest acc'"
  using assms
proof (induction before arbitrary: acc)
  case Nil
  show ?case by auto
next
  case (Cons b before)
  from Cons.prems have rest: "\<forall>b \<in> set before. (clock_in b = None \<and> clock_out b = None)
          \<or> (\<exists>ci co. strptime_HMS (clock_in b) = Inr ci \<and> strptime_HMS (clock_out b) = Inr co)"
    by simp
  from Cons.prems have "(clock_in b = None \<and> clock_out b = None)
          \<or> (\<exists>ci co. strptime_HMS (clock_in b) = Inr ci \<and> strptime_HMS (clock_out b) = Inr co)"
    by simp
  then show ?case
  proof
    assume "clock_in b = None \<and> clock_out b = None"
    then show ?thesis using Cons.IH [OF rest, of "acc @ [date b]"] by simp
  next
    assume "\<exists>ci co. strptime_HMS (clock_in b) = Inr ci \<and> strptime_HMS (clock_out b) = Inr co"
    then obtain ci co where p: "strptime_HMS (clock_in b) = Inr ci"
      "strptime_HMS (clock_out b) = Inr co" by blast
    then have "clock_in b \<noteq> None"
      by (cases "clock_in b") (simp_all add: strptime_HMS_None)
    then show ?thesis
      using p Cons.IH [OF rest, of "acc @ [date b]"] Cons.IH [OF rest, of acc] by simp
  qed
qed

lemma check_employee_times_loop_one_null:
  assumes "(clock_in a = None) \<noteq> (clock_out a = None)"
  shows "check_employee_times_loop (a # after) acc
     = Inl (if clock_in a = None \<or> (\<exists>t. strptime_HMS (clock_in a) = Inr t)
            then TypeError else ValueError)"
proof (cases "clock_in a")
  case None
  with assms obtain s where "clock_out a = Some s" by (cases "clock_out a") auto
  with None show ?thesis by (simp add: strptime_HMS_None)
next
  case (Some s)
  with assms have out: "clock_out a = None" by (cases "clock_out a") auto
  show ?thesis
  proof (cases "strptime_HMS (Some s)")
    case (Inl e)
    then have "e = ValueError" by (rule strptime_HMS_Some_error)
    with Inl Some out show ?thesis by simp
  next
    case (Inr t)
    with Some out show ?thesis by (simp add: strptime_HMS_None)
  qed
qed

text \<open>
  Claim C10. A row with exactly one of \<open>clock_in\<close> and \<open>clock_out\<close> absent makes
  \<open>check_employee_times\<close> raise, whatever the other rows are: no list of dates is returned,
  so the row is classified neither compliant nor delinquent. When the rows before it are
  in order, the error is that of this row: the \<open>TypeError\<close> of parsing the absent value
  when \<open>clock_in\<close> is the absent one or \<open>clock_in\<close> parses as a time of day, and otherwise
  the \<open>ValueError\<close> of parsing the \<open>clock_in\<close> that is present, which is parsed first. The
  run fails with it: \<open>identify_delinquent_employees\<close> returns no report for any roster that
  holds an employee with such a row among the rows of 2023.
\<close>

theorem check_employee_times_one_null_raises:
  assumes "a \<in> set rows" and "(clock_in a = None) \<noteq> (clock_out a = None)"
  shows "(\<exists>e. check_employee_times rows = Inl e)
     \<and> (\<forall>before after. rows = before @ a # after
          \<and> (\<forall>b \<in> set before. (clock_in b = None \<and> clock_out b = None)
                \<or> (\<exists>ci co. strptime_HMS (clock_in b) = Inr ci
                       \<and> strptime_HMS (clock_out b) = Inr co))
          \<longrightarrow> check_employee_times rows
                = Inl (if clock_in a = None \<or> (\<exists>t. strptime_HMS (clock_in a) = Inr t)
                       then TypeError else ValueError))
     \<and> (\<forall>emp \<in> set employee_data.
           get_employee_attendance_data (record_id emp) attendance_data 2023 = Inr rows
           \<longrightarrow> (\<exists>e. identify_delinquent_employees date_order event_order weather_data
                      events_data employee_data attendance_data = Inl e))"
proof (intro conjI allI ballI impI)
  show "\<exists>e. check_employee_times rows = Inl e"
  proof (cases "check_employee_times rows")
    case (Inl e)
    then show ?thesis by blast
  next
    case (Inr ds)
    then have "(clock_in a = None \<and> clock_out a = None)
        \<or> (\<exists>ci co. strptime_HMS (clock_in a) = Inr ci \<and> strptime_HMS (clock_out a) = Inr co)"
      using assms(1) unfolding check_employee_times_def check_employee_times_loop_Inr by blast
    with assms(2) show ?thesis
      by (auto simp: strptime_HMS_None)
  qed
next
  fix before after
  assume h: "rows = before @ a # after
          \<and> (\<forall>b \<in> set before. (clock_in b = None \<and> clock_out b = None)
                \<or> (\<exists>ci co. strptime_HMS (clock_in b) = Inr ci
                       \<and> strptime_HMS (clock_out b) = Inr co))"
  then obtain acc' where "check_employee_times_loop (before @ a # after) []
      = check_employee_times_loop (a # after) acc'"
    using check_employee_times_loop_append [of before "a # after" "[]"] by blast
  then show "check_employee_times rows
                = Inl (if clock_in a = None \<or> (\<exists>t. strptime_HMS (clock_in a) = Inr t)
                       then TypeError else ValueError)"
    using h check_employee_times_loop_one_null [OF assms(2), of after acc']
    by (simp add: check_employee_times_def)
next
  fix emp
  assume "emp \<in> set employee_data"
    and "get_employee_attendance_data (record_id emp) attendance_data 2023 = Inr rows"
  then show "\<exists>e. identify_delinquent_employees date_order event_order weather_data
                      events_data employee_data attendance_data = Inl e"
    using analyse_employee_one_null [OF _ assms] identify_delinquent_employees_fails
    by blast
qed

lemma one_null_samples:
  "strptime_HMS (Some ''08:00:00'') = Inr (Time 8 0 0)"
  "strptime_HMS (Some ''08:15:00'') = Inr (Time 8 15 0)"
  "strptime_HMS (Some ''16:00:00'') = Inr (Time 16 0 0)"
  "strptime_HMS (Some ''8am'') = Inl ValueError"
  by code_simp+

theorem check_employee_times_one_null_raises_witness:
  "check_employee_times
     [\<lparr>employee_record_id = (7::nat), date = ''2023-03-01'', clock_in = Some ''08:15:00'', clock_out = Some ''16:00:00''\<rparr>,
      \<lparr>employee_record_id = 7, date = ''2023-12-31'', clock_in = Some ''08:00:00'', clock_out = None\<rparr>]
     = Inl TypeError
   \<and> (\<exists>e. identify_delinquent_employees sc_date_order sc_event_order [] []
        [\<lparr>record_id = (7::nat), name = ''Ann'', work_id_number = ''W7'',
          email_address = ''ann@example.org'', employee_country = ''US'',
          phone_number = ''555-0107''\<rparr>]
        [\<lparr>employee_record_id = 7, date = ''2023-03-01'', clock_in = Some ''08:15:00'', clock_out = Some ''16:00:00''\<rparr>,
         \<lparr>employee_record_id = 7, date = ''2023-12-31'', clock_in = Some ''08:00:00'', clock_out = None\<rparr>]
       = Inl e)"
proof -
  let ?a = "\<lparr>employee_record_id = (7::nat), date = ''2023-12-31'', clock_in = Some ''08:00:00'', clock_out = None\<rparr>"
  let ?b = "\<lparr>employee_record_id = (7::nat), date = ''2023-03-01'', clock_in = Some ''08:15:00'', clock_out = Some ''16:00:00''\<rparr>"
  let ?emp = "\<lparr>record_id = (7::nat), name = ''Ann'', work_id_number = ''W7'',
          email_address = ''ann@example.org'', employee_country = ''US'',
          phone_number = ''555-0107''\<rparr>"
  have rows: "get_employee_attendance_data (record_id ?emp) [?b, ?a] 2023 = Inr [?b, ?a]"
    by (simp add: get_employee_attendance_data_def check_if_date_is_in_year_samples)
  note t = check_employee_times_one_null_raises [of ?a "[?b, ?a]" "[?emp]" "[?b, ?a]"
      sc_date_order sc_event_order "[]" "[]"]
  have 1: "?a \<in> set [?b, ?a]" by simp
  have 2: "(clock_in ?a = None) \<noteq> (clock_out ?a = None)" by simp
  from t [OF 1 2] have
    A: "\<forall>before after. [?b, ?a] = before @ ?a # after
          \<and> (\<forall>b \<in> set before. (clock_in b = None \<and> clock_out b = None)
                \<or> (\<exists>ci co. strptime_HMS (clock_in b) = Inr ci
                       \<and> strptime_HMS (clock_out b) = Inr co))
          \<longrightarrow> check_employee_times [?b, ?a]
                = Inl (if clock_in ?a = None \<or> (\<exists>t. strptime_HMS (clock_in ?a) = Inr t)
                       then TypeError else ValueError)"
    and B: "\<forall>emp \<in> set [?emp].
           get_employee_attendance_data (record_id emp) [?b, ?a] 2023 = Inr [?b, ?a]
           \<longrightarrow> (\<exists>e. identify_delinquent_employees sc_date_order sc_event_order []
                      [] [?emp] [?b, ?a] = Inl e)"
    by blast+
  from A [rule_format, of "[?b]" "[]"] have "check_employee_times [?b, ?a] = Inl TypeError"
    by (simp add: one_null_samples)
  moreover from B rows have "\<exists>e. identify_delinquent_employees sc_date_order sc_event_order []
                      [] [?emp] [?b, ?a] = Inl e"
    by simp
  ultimately show ?thesis by blast
qed

text \<open>
  The error is not always that of the absent value. When \<open>clock_in\<close> is present and is not
  a time of day, \<open>strptime\<close> raises \<open>ValueError\<close> on it before \<open>clock_out\<close> is looked at.
\<close>

theorem one_null_unparsable_clock_in_ValueError:
  "strptime_HMS (Some ''8am'') = Inl ValueError
   \<and> check_employee_times
     [\<lparr>employee_record_id = (7::nat), date = ''2023-03-06'', clock_in = Some ''8am'', clock_out = None\<rparr>]
     = Inl ValueError"
  by (simp add: check_employee_times_def one_null_samples)
subsection \<open>The example run\<close>

lemma sc_year:
  "check_if_date_is_in_year ''2023-03-06'' 2023 = Inr True"
  "check_if_date_is_in_year ''2023-03-08'' 2023 = Inr True"
  "check_if_date_is_in_year ''2023-03-10'' 2023 = Inr True"
  "check_if_date_is_in_year ''2023-03-13'' 2023 = Inr True"
  "check_if_date_is_in_year ''2023-03-14'' 2023 = Inr True"
  "check_if_date_is_in_year ''2023-03-15'' 2023 = Inr True"
  "check_if_date_is_in_year ''2023-03-16'' 2023 = Inr True"
  "check_if_date_is_in_year ''2023-03-17'' 2023 = Inr True"
  by code_simp+

lemma sc_Ymd:
  "strptime_Ymd ''2023-03-06'' = Inr (Date 2023 3 6)"
  "strptime_Ymd ''2023-03-08'' = Inr (Date 2023 3 8)"
  "strptime_Ymd ''2023-03-10'' = Inr (Date 2023 3 10)"
  "strptime_Ymd ''2023-03-13'' = Inr (Date 2023 3 13)"
  "strptime_Ymd ''2023-03-14'' = Inr (Date 2023 3 14)"
  "strptime_Ymd ''2023-03-15'' = Inr (Date 2023 3 15)"
  "strptime_Ymd ''2023-03-16'' = Inr (Date 2023 3 16)"
  "strptime_Ymd ''2023-03-17'' = Inr (Date 2023 3 17)"
  by code_simp+

lemma sc_ord:
  "toordinal (Date 2023 3 6) = 738585"
  "toordinal (Date 2023 3 8) = 738587"
  "toordinal (Date 2023 3 10) = 738589"
  "toordinal (Date 2023 3 13) = 738592"
  "toordinal (Date 2023 3 14) = 738593"
  "toordinal (Date 2023 3 15) = 738594"
  "toordinal (Date 2023 3 16) = 738595"
  "toordinal (Date 2023 3 17) = 738596"
  by code_simp+

lemma sc_week:
  "isocalendar_week (Date 2023 3 6) = 10"
  "isocalendar_week (Date 2023 3 8) = 10"
  "isocalendar_week (Date 2023 3 10) = 10"
  "isocalendar_week (Date 2023 3 13) = 11"
  "isocalendar_week (Date 2023 3 14) = 11"
  "isocalendar_week (Date 2023 3 15) = 11"
  "isocalendar_week (Date 2023 3 17) = 11"
  by code_simp+

lemma sc_rows_A:
  "get_employee_attendance_data 7 sc_attendance 2023 =
     Inr [\<lparr>employee_record_id = 7, date = ''2023-03-06'', clock_in = None, clock_out = None\<rparr>,
          \<lparr>employee_record_id = 7, date = ''2023-03-08'', clock_in = None, clock_out = None\<rparr>,
          \<lparr>employee_record_id = 7, date = ''2023-03-10'', clock_in = None, clock_out = None\<rparr>,
          \<lparr>employee_record_id = 7, date = ''2023-03-13'', clock_in = None, clock_out = None\<rparr>,
          \<lparr>employee_record_id = 7, date = ''2023-03-15'', clock_in = Some ''09:00:00'', clock_out = Some ''16:30:00''\<rparr>,
          \<lparr>employee_record_id = 7, date = ''2023-03-17'', clock_in = Some ''08:00:00'', clock_out = Some ''16:00:00''\<rparr>]"
  by (simp add: get_employee_attendance_data_def sc_year)

lemma sc_poor_A:
  "check_employee_times
         [\<lparr>employee_record_id = (7::nat), date = ''2023-03-06'', clock_in = None, clock_out = None\<rparr>,
          \<lparr>employee_record_id = 7, date = ''2023-03-08'', clock_in = None, clock_out = None\<rparr>,
          \<lparr>employee_record_id = 7, date = ''2023-03-10'', clock_in = None, clock_out = None\<rparr>,
          \<lparr>employee_record_id = 7, date = ''2023-03-13'', clock_in = None, clock_out = None\<rparr>,
          \<lparr>employee_record_id = 7, date = ''2023-03-15'', clock_in = Some ''09:00:00'', clock_out = Some ''16:30:00''\<rparr>,
          \<lparr>employee_record_id = 7, date = ''2023-03-17'', clock_in = Some ''08:00:00'', clock_out = Some ''16:00:00''\<rparr>]
   = Inr [''2023-03-06'', ''2023-03-08'', ''2023-03-10'', ''2023-03-13'', ''2023-03-15'']"
  by (simp add: check_employee_times_def strptime_HMS_samples time_less_def start_time_def
        end_time_def)

lemma sc_weather_US: "weather_set sc_weather ''US'' = Inr {''2023-03-13''}"
  by (simp add: sc_year)

lemma sc_events_US:
  "event_set sc_events ''US'' =
     Inr {(''2023-03-06'', ''Fair''), (''2023-03-08'', ''Derby''), (''2023-03-10'', ''Gala''),
          (''2023-03-13'', ''Parade''), (''2023-03-16'', ''Expo'')}"
  by (simp add: sc_year)

lemma sc_cross_A:
  "check_dates_against_events sc_date_order sc_event_order sc_weather sc_events
     [''2023-03-06'', ''2023-03-08'', ''2023-03-10'', ''2023-03-13'', ''2023-03-15''] ''US''
   = Inr [\<lparr>country = ''US'', event_name = ''Fair'', event_date = ''2023-03-06''\<rparr>,
       \<lparr>country = ''US'', event_name = ''Derby'', event_date = ''2023-03-08''\<rparr>,
       \<lparr>country = ''US'', event_name = ''Gala'', event_date = ''2023-03-10''\<rparr>,
       \<lparr>country = ''US'', event_name = ''Expo'', event_date = ''2023-03-16''\<rparr>]"
  unfolding check_dates_against_events_def sc_weather_US sc_events_US
  by (simp add: sc_Ymd sc_ord near_date_def event_reason_def remove_duplicate_events_def)

lemma sc_average_A:
  "calculate_average_hours_per_week
         [\<lparr>employee_record_id = (7::nat), date = ''2023-03-06'', clock_in = None, clock_out = None\<rparr>,
          \<lparr>employee_record_id = 7, date = ''2023-03-08'', clock_in = None, clock_out = None\<rparr>,
          \<lparr>employee_record_id = 7, date = ''2023-03-10'', clock_in = None, clock_out = None\<rparr>,
          \<lparr>employee_record_id = 7, date = ''2023-03-13'', clock_in = None, clock_out = None\<rparr>,
          \<lparr>employee_record_id = 7, date = ''2023-03-15'', clock_in = Some ''09:00:00'', clock_out = Some ''16:30:00''\<rparr>,
          \<lparr>employee_record_id = 7, date = ''2023-03-17'', clock_in = Some ''08:00:00'', clock_out = Some ''16:00:00''\<rparr>]
   = Inr (31 / 4)"
  by (simp add: calculate_average_hours_per_week_def row_hours_def row_week_def
        calculate_total_hours_def strptime_HMS_samples sc_Ymd sc_week seconds_of_def)

lemma sc_run_A:
  "analyse_employee sc_date_order sc_event_order sc_weather sc_events sc_attendance sc_A
   = Inr (31 / 4,
      [\<lparr>country = ''US'', event_name = ''Fair'', event_date = ''2023-03-06''\<rparr>,
       \<lparr>country = ''US'', event_name = ''Derby'', event_date = ''2023-03-08''\<rparr>,
       \<lparr>country = ''US'', event_name = ''Gala'', event_date = ''2023-03-10''\<rparr>,
       \<lparr>country = ''US'', event_name = ''Expo'', event_date = ''2023-03-16''\<rparr>])"
  unfolding analyse_employee_def
  by (simp only: employee.simps sc_rows_A sum.case sc_poor_A sc_cross_A sc_average_A)

lemma sc_rows_B:
  "get_employee_attendance_data 8 sc_attendance 2023 =
     Inr [\<lparr>employee_record_id = 8, date = ''2023-03-06'', clock_in = None, clock_out = None\<rparr>,
          \<lparr>employee_record_id = 8, date = ''2023-03-08'', clock_in = None, clock_out = None\<rparr>,
          \<lparr>employee_record_id = 8, date = ''2023-03-10'', clock_in = None, clock_out = None\<rparr>,
          \<lparr>employee_record_id = 8, date = ''2023-03-14'', clock_in = Some ''08:15:00'', clock_out = Some ''16:00:00''\<rparr>]"
  by (simp add: get_employee_attendance_data_def sc_year)

lemma sc_poor_B:
  "check_employee_times
         [\<lparr>employee_record_id = (8::nat), date = ''2023-03-06'', clock_in = None, clock_out = None\<rparr>,
          \<lparr>employee_record_id = 8, date = ''2023-03-08'', clock_in = None, clock_out = None\<rparr>,
          \<lparr>employee_record_id = 8, date = ''2023-03-10'', clock_in = None, clock_out = None\<rparr>,
          \<lparr>employee_record_id = 8, date = ''2023-03-14'', clock_in = Some ''08:15:00'', clock_out = Some ''16:00:00''\<rparr>]
   = Inr [''2023-03-06'', ''2023-03-08'', ''2023-03-10'']"
  by (simp add: check_employee_times_def strptime_HMS_samples time_less_def start_time_def
        end_time_def)

lemma sc_cross_B:
  "check_dates_against_events sc_date_order sc_event_order sc_weather sc_events
     [''2023-03-06'', ''2023-03-08'', ''2023-03-10''] ''US''
   = Inr [\<lparr>country = ''US'', event_name = ''Fair'', event_date = ''2023-03-06''\<rparr>,
       \<lparr>country = ''US'', event_name = ''Derby'', event_date = ''2023-03-08''\<rparr>,
       \<lparr>country = ''US'', event_name = ''Gala'', event_date = ''2023-03-10''\<rparr>]"
  unfolding check_dates_against_events_def sc_weather_US sc_events_US
  by (simp add: sc_Ymd sc_ord near_date_def event_reason_def remove_duplicate_events_def)

lemma sc_average_B:
  "calculate_average_hours_per_week
         [\<lparr>employee_record_id = (8::nat), date = ''2023-03-06'', clock_in = None, clock_out = None\<rparr>,
          \<lparr>employee_record_id = 8, date = ''2023-03-08'', clock_in = None, clock_out = None\<rparr>,
          \<lparr>employee_record_id = 8, date = ''2023-03-10'', clock_in = None, clock_out = None\<rparr>,
          \<lparr>employee_record_id = 8, date = ''2023-03-14'', clock_in = Some ''08:15:00'', clock_out = Some ''16:00:00''\<rparr>]
   = Inr (31 / 8)"
  by (simp add: calculate_average_hours_per_week_def row_hours_def row_week_def
        calculate_total_hours_def strptime_HMS_samples sc_Ymd sc_week seconds_of_def)

lemma sc_run_B:
  "analyse_employee sc_date_order sc_event_order sc_weather sc_events sc_attendance sc_B
   = Inr (31 / 8,
      [\<lparr>country = ''US'', event_name = ''Fair'', event_date = ''2023-03-06''\<rparr>,
       \<lparr>country = ''US'', event_name = ''Derby'', event_date = ''2023-03-08''\<rparr>,
       \<lparr>country = ''US'', event_name = ''Gala'', event_date = ''2023-03-10''\<rparr>])"
  unfolding analyse_employee_def
  by (simp only: employee.simps sc_rows_B sum.case sc_poor_B sc_cross_B sc_average_B)

theorem identify_delinquent_employees_reports_more_than_three_witness:
  "identify_delinquent_employees sc_date_order sc_event_order sc_weather sc_events
     [sc_A, sc_B] sc_attendance
   = Inr [\<lparr>record_id = 7, name = ''Ada'', work_id_number = ''W7'',
           email_address = ''ada@x.org'', employee_country = ''US'',
           phone_number = ''555-0107'', average_hours_per_week = 31 / 4,
           events =
            [\<lparr>country = ''US'', event_name = ''Fair'', event_date = ''2023-03-06''\<rparr>,
             \<lparr>country = ''US'', event_name = ''Derby'', event_date = ''2023-03-08''\<rparr>,
             \<lparr>country = ''US'', event_name = ''Gala'', event_date = ''2023-03-10''\<rparr>,
             \<lparr>country = ''US'', event_name = ''Expo'', event_date = ''2023-03-16''\<rparr>]\<rparr>]"
  by (rule identify_delinquent_employees_reports_more_than_three [THEN iffD2],
      rule exI [of _ "[(31 / 4,
            [\<lparr>country = ''US'', event_name = ''Fair'', event_date = ''2023-03-06''\<rparr>,
             \<lparr>country = ''US'', event_name = ''Derby'', event_date = ''2023-03-08''\<rparr>,
             \<lparr>country = ''US'', event_name = ''Gala'', event_date = ''2023-03-10''\<rparr>,
             \<lparr>country = ''US'', event_name = ''Expo'', event_date = ''2023-03-16''\<rparr>]),
          (31 / 8,
            [\<lparr>country = ''US'', event_name = ''Fair'', event_date = ''2023-03-06''\<rparr>,
             \<lparr>country = ''US'', event_name = ''Derby'', event_date = ''2023-03-08''\<rparr>,
             \<lparr>country = ''US'', event_name = ''Gala'', event_date = ''2023-03-10''\<rparr>])]"])
     (simp only: list.map sc_run_A sc_run_B, simp add: employee_information_def)

theorem check_dates_against_events_drops_severe_weather_dates_witness:
  "\<exists>es cands.
       weather_set sc_weather ''US''
         = Inr {weather_date w | w. w \<in> set sc_weather \<and> weather_country w = ''US''
                 \<and> check_if_date_is_in_year (weather_date w) 2023 = Inr True
                 \<and> (condition w \<in> {''hail'', ''thunderstorm'', ''blizzard'', ''hurricane''}
                      \<or> max_temp w > 40)}
     \<and> event_set sc_events ''US'' = Inr es
     \<and> event_reasons ''US''
          (sc_date_order
             (sc_weather, [''2023-03-06'', ''2023-03-08'', ''2023-03-10'', ''2023-03-13'', ''2023-03-15''], ''US'')
             (set [''2023-03-06'', ''2023-03-08'', ''2023-03-10'', ''2023-03-13'', ''2023-03-15''] -
             {weather_date w | w. w \<in> set sc_weather \<and> weather_country w = ''US''
                 \<and> check_if_date_is_in_year (weather_date w) 2023 = Inr True
                 \<and> (condition w \<in> {''hail'', ''thunderstorm'', ''blizzard'', ''hurricane''}
                      \<or> max_temp w > 40)}))
          (sc_event_order (sc_events, ''US'') es) [] = Inr cands
     \<and> [\<lparr>country = ''US'', event_name = ''Fair'', event_date = ''2023-03-06''\<rparr>,
       \<lparr>country = ''US'', event_name = ''Derby'', event_date = ''2023-03-08''\<rparr>,
       \<lparr>country = ''US'', event_name = ''Gala'', event_date = ''2023-03-10''\<rparr>,
       \<lparr>country = ''US'', event_name = ''Expo'', event_date = ''2023-03-16''\<rparr>]
        = remove_duplicate_events cands"
  by (rule check_dates_against_events_drops_severe_weather_dates [OF sc_cross_A])

lemma sc_rows_C: "get_employee_attendance_data 9 sc_attendance 2023 = Inr []"
  by (simp add: get_employee_attendance_data_def)

theorem no_attendance_rows_division_by_zero_witness:
  "calculate_average_hours_per_week ([] :: nat attendance list) = Inl ZeroDivisionError
   \<and> (\<exists>e. identify_delinquent_employees sc_date_order sc_event_order sc_weather sc_events
          [sc_A, sc_C] sc_attendance = Inl e)"
  by (rule no_attendance_rows_division_by_zero [of sc_C _ sc_attendance "[]"])
     (simp_all add: sc_rows_C)

end
